theory Spec2Isabelle
  imports Complex_Main
begin

section \<open>Challenge service (voting/emailjs\_service.py)\<close>

text \<open>
  The one-time-code service keeps its challenges in Django's cache, one entry per e-mail
  address, under the key made of the prefix \<^verbatim>\<open>email_verification_\<close> and the address.
  The cache is an external collaborator: it is modelled as a finite map from keys to a
  value with its expiry instant, read at an explicit clock value (seconds). Any of its
  three operations may raise; which of them do is given by a \<open>cache_backend\<close>.
\<close>

record verification_data =
  code :: string
  created_at :: int
  attempts :: int

type_synonym cache = "string \<rightharpoonup> (verification_data \<times> int)"

record cache_backend =
  get_raises :: bool
  set_raises :: bool
  delete_raises :: bool

text \<open>An exception: its class and its message (\<^verbatim>\<open>str(e)\<close>).\<close>

datatype exn = Exn string string

definition cache_get :: "cache_backend \<Rightarrow> int \<Rightarrow> cache \<Rightarrow> string \<Rightarrow> exn + verification_data option" where
  "cache_get be now c k =
     (if get_raises be then Inl (Exn ''Exception'' ''cache.get'')
      else (case c k of
              None \<Rightarrow> Inr None
            | Some (v, expires) \<Rightarrow> if now < expires then Inr (Some v) else Inr None))"

definition cache_set :: "cache_backend \<Rightarrow> int \<Rightarrow> cache \<Rightarrow> string \<Rightarrow> verification_data \<Rightarrow> int \<Rightarrow> exn + cache" where
  "cache_set be now c k v timeout =
     (if set_raises be then Inl (Exn ''Exception'' ''cache.set'') else Inr (c(k \<mapsto> (v, now + timeout))))"

definition cache_delete :: "cache_backend \<Rightarrow> cache \<Rightarrow> string \<Rightarrow> exn + cache" where
  "cache_delete be c k =
     (if delete_raises be then Inl (Exn ''Exception'' ''cache.delete'') else Inr (c(k := None)))"

record EmailJSService =
  service_id :: string
  template_id :: string
  public_key :: string
  private_key :: string
  code_length :: nat
  code_expiry_minutes :: int
  max_attempts :: int

text \<open>The constructor: the four settings are read from the configuration, the three
  verification-code settings are fixed.\<close>

definition EmailJSService_init :: "string \<Rightarrow> string \<Rightarrow> string \<Rightarrow> string \<Rightarrow> EmailJSService" where
  "EmailJSService_init sid tid pub priv =
     \<lparr> service_id = sid, template_id = tid, public_key = pub, private_key = priv,
       code_length = 6, code_expiry_minutes = 15, max_attempts = 3 \<rparr>"

definition is_configured :: "EmailJSService \<Rightarrow> bool" where
  "is_configured svc \<longleftrightarrow>
     service_id svc \<noteq> [] \<and> template_id svc \<noteq> [] \<and> public_key svc \<noteq> [] \<and> private_key svc \<noteq> []"

definition cache_key :: "string \<Rightarrow> string" where
  "cache_key email = ''email_verification_'' @ email"

datatype error_code =
    CODE_NOT_FOUND | MAX_ATTEMPTS_EXCEEDED | INVALID_CODE | SYSTEM_ERROR
  | NOT_CONFIGURED | STORAGE_ERROR | SEND_ERROR

text \<open>The dictionary returned by \<open>verify_code\<close>: success, or an error code together with
  the \<open>remaining_attempts\<close> entry where the source sets it.\<close>

datatype verify_outcome = VerifyOk | VerifyErr error_code "int option"

definition store_verification_code ::
  "EmailJSService \<Rightarrow> cache_backend \<Rightarrow> int \<Rightarrow> cache \<Rightarrow> string \<Rightarrow> string \<Rightarrow> bool \<times> cache" where
  "store_verification_code svc be now c email cd =
     (case cache_set be now c (cache_key email)
             \<lparr> code = cd, created_at = now, attempts = 0 \<rparr> (code_expiry_minutes svc * 60) of
        Inl e \<Rightarrow> (False, c)
      | Inr c' \<Rightarrow> (True, c'))"

definition get_verification_data ::
  "cache_backend \<Rightarrow> int \<Rightarrow> cache \<Rightarrow> string \<Rightarrow> verification_data option" where
  "get_verification_data be now c email =
     (case cache_get be now c (cache_key email) of
        Inl e \<Rightarrow> None
      | Inr r \<Rightarrow> r)"

definition clear_verification_code :: "cache_backend \<Rightarrow> cache \<Rightarrow> string \<Rightarrow> bool \<times> cache" where
  "clear_verification_code be c email =
     (case cache_delete be c (cache_key email) of
        Inl e \<Rightarrow> (False, c)
      | Inr c' \<Rightarrow> (True, c'))"

definition verify_code ::
  "EmailJSService \<Rightarrow> cache_backend \<Rightarrow> int \<Rightarrow> cache \<Rightarrow> string \<Rightarrow> string \<Rightarrow> verify_outcome \<times> cache" where
  "verify_code svc be now c email provided_code =
     (case get_verification_data be now c email of
        None \<Rightarrow> (VerifyErr CODE_NOT_FOUND None, c)
      | Some vd \<Rightarrow>
          if attempts vd \<ge> max_attempts svc then
            (VerifyErr MAX_ATTEMPTS_EXCEEDED None, snd (clear_verification_code be c email))
          else
            (let vd' = vd\<lparr>attempts := attempts vd + 1\<rparr> in
             case cache_set be now c (cache_key email) vd' (code_expiry_minutes svc * 60) of
               Inl e \<Rightarrow> (VerifyErr SYSTEM_ERROR None, c)
             | Inr c' \<Rightarrow>
                 if code vd' = provided_code then
                   (VerifyOk, snd (clear_verification_code be c' email))
                 else
                   (VerifyErr INVALID_CODE (Some (max_attempts svc - attempts vd')), c')))"

text \<open>\<open>generate_verification_code\<close> draws \<open>code_length\<close> decimal digits; the random source
  is the parameter \<open>rnd\<close>, giving the index drawn at each position.\<close>

definition generate_verification_code :: "EmailJSService \<Rightarrow> (nat \<Rightarrow> nat) \<Rightarrow> string" where
  "generate_verification_code svc rnd =
     map (\<lambda>i. ''0123456789'' ! (rnd i mod 10)) [0..<code_length svc]"

record emailjs_config =
  cfg_service_id :: string
  cfg_template_id :: string
  cfg_public_key :: string
  to_email :: string
  to_name :: string
  verification_code :: string
  expiry_minutes :: int

datatype send_outcome = SendOk emailjs_config | SendErr error_code

definition template_config :: "EmailJSService \<Rightarrow> string \<Rightarrow> string option \<Rightarrow> string \<Rightarrow> emailjs_config" where
  "template_config svc email voter_name vc =
     \<lparr> cfg_service_id = service_id svc, cfg_template_id = template_id svc,
       cfg_public_key = public_key svc, to_email = email,
       to_name = (case voter_name of
                    None \<Rightarrow> takeWhile (\<lambda>ch. ch \<noteq> CHR ''@'') email
                  | Some n \<Rightarrow> if n = [] then takeWhile (\<lambda>ch. ch \<noteq> CHR ''@'') email else n),
       verification_code = vc, expiry_minutes = code_expiry_minutes svc \<rparr>"

text \<open>Issuing a challenge: \<open>send_verification_email\<close> called without a code generates one
  and stores it; called with a code it only builds the reply.\<close>

definition send_verification_email ::
  "EmailJSService \<Rightarrow> cache_backend \<Rightarrow> int \<Rightarrow> (nat \<Rightarrow> nat) \<Rightarrow> cache \<Rightarrow> string \<Rightarrow> string option
     \<Rightarrow> string option \<Rightarrow> send_outcome \<times> cache" where
  "send_verification_email svc be now rnd c email voter_name vcode =
     (if \<not> is_configured svc then (SendErr NOT_CONFIGURED, c)
      else (case vcode of
              Some vc \<Rightarrow> (SendOk (template_config svc email voter_name vc), c)
            | None \<Rightarrow>
                (let vc = generate_verification_code svc rnd;
                     (stored, c') = store_verification_code svc be now c email vc
                 in if \<not> stored then (SendErr STORAGE_ERROR, c')
                    else (SendOk (template_config svc email voter_name vc), c'))))"

text \<open>A scenario driver: successive \<open>verify_code\<close> calls for one address, each with its
  clock value and the code provided, threading the cache from one call to the next.\<close>

fun verify_run ::
  "EmailJSService \<Rightarrow> cache_backend \<Rightarrow> cache \<Rightarrow> string \<Rightarrow> (int \<times> string) list
     \<Rightarrow> verify_outcome list \<times> cache" where
  "verify_run svc be c email [] = ([], c)"
| "verify_run svc be c email ((now, cd) # rest) =
     (let (r, c') = verify_code svc be now c email cd;
          (rs, c'') = verify_run svc be c' email rest
      in (r # rs, c''))"

definition healthy_cache :: cache_backend where
  "healthy_cache = \<lparr> get_raises = False, set_raises = False, delete_raises = False \<rparr>"

section \<open>Persistent data (voting/models.py, blockchain/models.py)\<close>

text \<open>
  Each Django model is a record of the columns the vote path reads or writes; a table is
  the list of its rows. UUID primary keys are drawn from a counter of fresh values.
  Column length limits, which the database engines treat differently, are left out.
\<close>

record Voter =
  voter_pk :: nat
  email :: string
  aadhaar_number :: string
  voter_is_active :: bool
  has_voted :: bool

record PoliticalParty =
  party_pk :: nat
  party_id :: string
  party_name :: string
  party_is_active :: bool

record Vote =
  vote_pk :: nat
  voter :: nat
  political_party :: nat
  blockchain_hash :: "string option"
  blockchain_block_number :: "int option"
  voted_at :: rat
  is_valid :: bool
  ip_address :: "string option"

record VotingSession =
  session_is_active :: bool
  start_time :: rat
  end_time :: rat

record BlockchainNetwork =
  network_pk :: nat
  network_name :: string
  rpc_url :: string
  chain_id :: int
  network_is_active :: bool

record BlockchainTransaction =
  transaction_pk :: nat
  transaction_hash :: string
  transaction_type :: string
  from_address :: string
  to_address :: string
  gas_used :: "int option"
  gas_price :: "int option"
  block_number :: "int option"
  block_hash :: string
  status :: string
  network :: nat
  transaction_data :: string

text \<open>A \<open>VoteRecord\<close> row is held together with the row its one-to-one column
  \<open>blockchain_transaction\<close> points to, as the ORM presents it (\<open>None\<close>: no related
  object, which the column, being \<^verbatim>\<open>NOT NULL\<close>, excludes for a stored row; the audit loop tests
  for it all the same). The column \<open>party_id\<close> is a \<^verbatim>\<open>UUIDField\<close>: a stored row carries a
  \<^verbatim>\<open>uuid.UUID\<close>, modelled like the primary keys.\<close>

record VoteRecord =
  record_pk :: nat
  voter_hash :: string
  record_party_id :: nat
  vote_timestamp :: int
  blockchain_transaction :: "BlockchainTransaction option"
  merkle_proof :: "string option"

record database =
  voters :: "Voter list"
  parties :: "PoliticalParty list"
  votes :: "Vote list"
  voting_sessions :: "VotingSession list"
  networks :: "BlockchainNetwork list"
  transactions :: "BlockchainTransaction list"
  vote_records :: "VoteRecord list"

text \<open>The properties of blockchain/models.py. Both are read-only: they have no setter.\<close>

definition is_confirmed :: "BlockchainTransaction \<Rightarrow> bool" where
  "is_confirmed t \<longleftrightarrow> status t = ''confirmed'' \<and> block_number t \<noteq> None"

definition is_verified :: "VoteRecord \<Rightarrow> exn + bool" where
  "is_verified r =
     (case blockchain_transaction r of
        None \<Rightarrow> Inl (Exn ''RelatedObjectDoesNotExist'' [])
      | Some t \<Rightarrow> Inr (is_confirmed t))"

text \<open>
  The constraints the database enforces on an insert into \<open>Vote\<close>: the primary key, the
  two foreign keys, \<open>unique_together = ['voter', 'political_party']\<close>, and \<open>unique\<close> on
  the nullable \<open>blockchain_hash\<close> (two NULLs do not collide).
\<close>

definition Vote_insert :: "database \<Rightarrow> Vote \<Rightarrow> exn + database" where
  "Vote_insert d v =
     (if vote_pk v \<in> vote_pk ` set (votes d) then Inl (Exn ''IntegrityError'' [])
      else if voter v \<notin> voter_pk ` set (voters d) then Inl (Exn ''IntegrityError'' [])
      else if political_party v \<notin> party_pk ` set (parties d) then Inl (Exn ''IntegrityError'' [])
      else if \<exists>w \<in> set (votes d). voter w = voter v \<and> political_party w = political_party v
        then Inl (Exn ''IntegrityError'' [])
      else if blockchain_hash v \<noteq> None \<and> blockchain_hash v \<in> blockchain_hash ` set (votes d)
        then Inl (Exn ''IntegrityError'' [])
      else Inr (d\<lparr>votes := votes d @ [v]\<rparr>))"

text \<open>The constraints on \<open>VoteRecord\<close>: the primary key and the one-to-one column
  \<open>blockchain_transaction\<close> (not null, unique). There is none on \<open>voter_hash\<close>.\<close>

definition VoteRecord_insert :: "database \<Rightarrow> VoteRecord \<Rightarrow> exn + database" where
  "VoteRecord_insert d r =
     (if record_pk r \<in> record_pk ` set (vote_records d) then Inl (Exn ''IntegrityError'' [])
      else (case blockchain_transaction r of
              None \<Rightarrow> Inl (Exn ''IntegrityError'' [])
            | Some t \<Rightarrow>
                if transaction_pk t \<notin> transaction_pk ` set (transactions d)
                  then Inl (Exn ''IntegrityError'' [])
                else if \<exists>q \<in> set (vote_records d).
                          map_option transaction_pk (blockchain_transaction q) = Some (transaction_pk t)
                  then Inl (Exn ''IntegrityError'' [])
                else Inr (d\<lparr>vote_records := vote_records d @ [r]\<rparr>)))"

definition BlockchainTransaction_insert :: "database \<Rightarrow> BlockchainTransaction \<Rightarrow> exn + database" where
  "BlockchainTransaction_insert d t =
     (if transaction_pk t \<in> transaction_pk ` set (transactions d) then Inl (Exn ''IntegrityError'' [])
      else if network t \<notin> network_pk ` set (networks d) then Inl (Exn ''IntegrityError'' [])
      else if transaction_hash t \<in> transaction_hash ` set (transactions d)
        then Inl (Exn ''IntegrityError'' [])
      else Inr (d\<lparr>transactions := transactions d @ [t]\<rparr>))"

definition Voter_update :: "database \<Rightarrow> Voter \<Rightarrow> database" where
  "Voter_update d v = d\<lparr>voters := map (\<lambda>w. if voter_pk w = voter_pk v then v else w) (voters d)\<rparr>"

section \<open>Effects: exceptions, the call log, the clock, the database connection\<close>

text \<open>
  A run threads a \<open>world\<close>: the database, the log of ledger calls and table writes made so
  far, the number of clock readings taken, the next fresh primary key, and the two flags of
  Django's connection (\<open>in_atomic_block\<close>, \<open>needs_rollback\<close>). A computation returns a
  value or the exception raised (\<open>Inl\<close>), with the world it leaves behind.
\<close>

datatype event =
    GetBlock | ChainId | HasVoted string | IsVotingActive | EstimateGas | GasPrice
  | GetTransactionCount | BuildTransaction | SendRawTransaction string | WaitForReceipt string
  | GetTransactionReceipt string | LedgerSubmit string string | DbWrite string

record world =
  db :: database
  trace :: "event list"
  ticks :: nat
  next_pk :: nat
  in_atomic_block :: bool
  needs_rollback :: bool

type_synonym 'a io = "world \<Rightarrow> (exn + 'a) \<times> world"

definition io_return :: "'a \<Rightarrow> 'a io" where
  "io_return x = (\<lambda>s. (Inr x, s))"

definition io_raise :: "exn \<Rightarrow> 'a io" where
  "io_raise e = (\<lambda>s. (Inl e, s))"

definition io_bind :: "'a io \<Rightarrow> ('a \<Rightarrow> 'b io) \<Rightarrow> 'b io" where
  "io_bind m f = (\<lambda>s. case m s of (Inl e, s') \<Rightarrow> (Inl e, s') | (Inr v, s') \<Rightarrow> f v s')"

text \<open>\<^verbatim>\<open>try: m  except Exception as e: h(e)\<close>\<close>

definition try_except :: "'a io \<Rightarrow> (exn \<Rightarrow> 'a io) \<Rightarrow> 'a io" where
  "try_except m h = (\<lambda>s. case m s of (Inl e, s') \<Rightarrow> h e s' | (Inr v, s') \<Rightarrow> (Inr v, s'))"

text \<open>A call that leaves the process (the ledger's RPC endpoint): logged, then its outcome.\<close>

definition rpc :: "event \<Rightarrow> exn + 'a \<Rightarrow> 'a io" where
  "rpc ev outcome = (\<lambda>s. (outcome, s\<lparr>trace := trace s @ [ev]\<rparr>))"

text \<open>A library call that may raise but is neither logged nor changes the world.\<close>

definition lib :: "exn + 'a \<Rightarrow> 'a io" where
  "lib outcome = (\<lambda>s. (outcome, s))"

definition log_event :: "event \<Rightarrow> unit io" where
  "log_event ev = (\<lambda>s. (Inr (), s\<lparr>trace := trace s @ [ev]\<rparr>))"

definition fresh_pk :: "nat io" where
  "fresh_pk = (\<lambda>s. (Inr (next_pk s), s\<lparr>next_pk := Suc (next_pk s)\<rparr>))"

text \<open>Inside an atomic block a failed statement marks the connection; every later query
  in the block then raises \<open>TransactionManagementError\<close>.\<close>

definition orm_guard :: "unit io" where
  "orm_guard = (\<lambda>s. if in_atomic_block s \<and> needs_rollback s
                      then (Inl (Exn ''TransactionManagementError'' []), s) else (Inr (), s))"

definition db_read :: "(database \<Rightarrow> 'a) \<Rightarrow> 'a io" where
  "db_read f = io_bind orm_guard (\<lambda>_ s. (Inr (f (db s)), s))"

definition db_write :: "string \<Rightarrow> (database \<Rightarrow> exn + database) \<Rightarrow> unit io" where
  "db_write table f =
     io_bind orm_guard (\<lambda>_ s.
       case f (db s) of
         Inl e \<Rightarrow> (Inl e, s\<lparr>needs_rollback := needs_rollback s \<or> in_atomic_block s\<rparr>)
       | Inr d \<Rightarrow> (Inr (), s\<lparr>db := d, trace := trace s @ [DbWrite table]\<rparr>))"

text \<open>\<^verbatim>\<open>with transaction.atomic(): m\<close> as the outermost block: an exception rolls the
  database back and is raised again; a normal exit (also by \<^verbatim>\<open>return\<close>) commits, unless
  the connection was marked, in which case it rolls back.\<close>

definition atomic :: "'a io \<Rightarrow> 'a io" where
  "atomic m = (\<lambda>s.
     case m (s\<lparr>in_atomic_block := True, needs_rollback := False\<rparr>) of
       (Inl e, s') \<Rightarrow> (Inl e, s'\<lparr>db := db s, in_atomic_block := False, needs_rollback := False\<rparr>)
     | (Inr v, s') \<Rightarrow>
         (Inr v, (if needs_rollback s' then s'\<lparr>db := db s\<rparr> else s')
                   \<lparr>in_atomic_block := False, needs_rollback := False\<rparr>))"

section \<open>Ledger client (blockchain/blockchain\_client.py)\<close>

text \<open>
  The ledger, the web3 library, the hash function and the clock are external: what each
  call returns or raises is given by an environment. Byte strings, unsigned transactions
  and signed transactions are opaque strings.
\<close>

record receipt =
  r_status :: int
  r_blockNumber :: int
  r_from :: "string option"
  r_to :: "string option"
  r_gasUsed :: "int option"
  r_effectiveGasPrice :: "int option"
  r_blockHash :: "string option"

record web3_env =
  eth_get_block_latest :: "exn + nat"
  eth_chain_id :: "exn + int"
  eth_gas_price :: "exn + int"
  eth_get_transaction_count :: "string \<Rightarrow> exn + int"
  to_bytes_hexstr :: "string \<Rightarrow> exn + string"
  hasVoted_call :: "string \<Rightarrow> exn + bool"
  isVotingActive_call :: "exn + bool"
  castVote_fn :: "string \<Rightarrow> string \<Rightarrow> exn + unit"
  castVote_estimate_gas :: "string \<Rightarrow> string \<Rightarrow> string \<Rightarrow> exn + int"
  castVote_build_transaction :: "string \<Rightarrow> string \<Rightarrow> string \<Rightarrow> int \<Rightarrow> int \<Rightarrow> int \<Rightarrow> exn + string"
  sign_transaction :: "string \<Rightarrow> string option \<Rightarrow> exn + string"
  eth_send_raw_transaction :: "string \<Rightarrow> exn + string"
  eth_wait_for_transaction_receipt :: "string \<Rightarrow> exn + receipt"
  eth_get_transaction_receipt :: "string \<Rightarrow> exn + receipt"
  VoteCast_process_receipt :: "receipt \<Rightarrow> exn + (string \<times> string) list"
  sha256_hexdigest :: "string \<Rightarrow> string"
  str_float :: "rat \<Rightarrow> string"
  clock :: "nat \<Rightarrow> rat"

record BlockchainClient =
  network_url :: string
  client_private_key :: "string option"
  contract_address :: "string option"
  account :: "string option"
  contract :: "string option"

text \<open>\<^verbatim>\<open>time.time()\<close>: the next reading of the clock. \<^verbatim>\<open>timezone.now()\<close> in the view reads
  the same clock.\<close>

definition time_time :: "web3_env \<Rightarrow> rat io" where
  "time_time env = (\<lambda>s. (Inr (clock env (ticks s)), s\<lparr>ticks := Suc (ticks s)\<rparr>))"

text \<open>Python's \<^verbatim>\<open>int(x)\<close> on a float truncates towards zero.\<close>

definition py_int :: "rat \<Rightarrow> int" where
  "py_int x = (if 0 \<le> x then \<lfloor>x\<rfloor> else \<lceil>x\<rceil>)"

text \<open>\<^verbatim>\<open>self.account.address\<close>: an \<open>AttributeError\<close> when no account was set up.\<close>

definition account_address :: "BlockchainClient \<Rightarrow> string io" where
  "account_address cl =
     (case account cl of
        None \<Rightarrow> io_raise (Exn ''AttributeError'' ''NoneType object has no attribute address'')
      | Some a \<Rightarrow> io_return a)"

definition test_connection :: "web3_env \<Rightarrow> bool io" where
  "test_connection env =
     try_except
       (io_bind (rpc GetBlock (eth_get_block_latest env)) (\<lambda>latest_block. io_return True))
       (\<lambda>e. io_return False)"

definition has_voter_voted :: "BlockchainClient \<Rightarrow> web3_env \<Rightarrow> string \<Rightarrow> bool io" where
  "has_voter_voted cl env vhash =
     (if contract cl = None then io_return False
      else try_except
             (io_bind (lib (to_bytes_hexstr env vhash)) (\<lambda>voter_hash_bytes.
              io_bind (rpc (HasVoted vhash) (hasVoted_call env voter_hash_bytes)) (\<lambda>voted.
              io_return voted)))
             (\<lambda>e. io_return False))"

text \<open>The value a caller passes as \<open>party_id\<close>: the view passes the party's code, a
  \<^verbatim>\<open>str\<close>; the audit passes the column of a stored vote record, a \<^verbatim>\<open>uuid.UUID\<close>. A decoded
  event carries a \<^verbatim>\<open>str\<close>, and in Python a \<^verbatim>\<open>str\<close> is never equal to a \<^verbatim>\<open>uuid.UUID\<close>.\<close>

datatype party_ref = PartyStr string | PartyUUID nat

definition str_eq_party :: "string \<Rightarrow> party_ref \<Rightarrow> bool" where
  "str_eq_party x party = (case party of PartyStr p \<Rightarrow> x = p | PartyUUID u \<Rightarrow> False)"

text \<open>The loop over the decoded \<open>VoteCast\<close> events: the first event with this voter hash
  and party ends it with \<open>True\<close>.\<close>

fun matching_event :: "(string \<times> string) list \<Rightarrow> string \<Rightarrow> party_ref \<Rightarrow> bool" where
  "matching_event [] vhash party = False"
| "matching_event ((event_voter_hash, event_party_id) # events) vhash party =
     (if event_voter_hash = vhash \<and> str_eq_party event_party_id party then True
      else matching_event events vhash party)"

definition verify_vote_on_blockchain ::
  "BlockchainClient \<Rightarrow> web3_env \<Rightarrow> string \<Rightarrow> party_ref \<Rightarrow> string \<Rightarrow> bool io" where
  "verify_vote_on_blockchain cl env vhash party tx_hash =
     try_except
       (io_bind (rpc (GetTransactionReceipt tx_hash) (eth_get_transaction_receipt env tx_hash)) (\<lambda>rc.
          if r_status rc \<noteq> 1 then io_return False
          else if contract cl \<noteq> None then
            io_bind (lib (VoteCast_process_receipt env rc)) (\<lambda>vote_events.
              io_return (matching_event vote_events vhash party))
          else io_return False))
       (\<lambda>e. io_return False)"

text \<open>The dictionary returned by \<open>cast_vote_on_blockchain\<close>.\<close>

record cast_result =
  success :: bool
  result_transaction_hash :: "string option"
  result_block_number :: "int option"
  message :: string

text \<open>The simulated result, built the same way at the three places that return it: two
  readings of the clock, the first hashed with the voter hash and the party.\<close>

definition simulated :: "web3_env \<Rightarrow> string \<Rightarrow> string \<Rightarrow> string \<Rightarrow> cast_result io" where
  "simulated env vhash party msg =
     io_bind (time_time env) (\<lambda>t1.
     io_bind (time_time env) (\<lambda>t2.
     io_return \<lparr> success = True,
                 result_transaction_hash =
                   Some (''0x'' @ sha256_hexdigest env (vhash @ party @ str_float env t1)),
                 result_block_number = Some (py_int t2 mod 1000000),
                 message = msg \<rparr>))"

definition rejected :: "string \<Rightarrow> cast_result" where
  "rejected msg = \<lparr> success = False, result_transaction_hash = None,
                    result_block_number = None, message = msg \<rparr>"

definition BlockchainNetwork_get_or_create_default ::
  "BlockchainClient \<Rightarrow> int \<Rightarrow> nat io" where
  "BlockchainNetwork_get_or_create_default cl cid =
     io_bind (db_read (\<lambda>d. filter (\<lambda>n. network_name n = ''default'') (networks d))) (\<lambda>found.
       case found of
         [] \<Rightarrow> io_bind fresh_pk (\<lambda>pk.
                 io_bind (db_write ''BlockchainNetwork'' (\<lambda>d. Inr (d\<lparr>networks := networks d @
                            [\<lparr> network_pk = pk, network_name = ''default'', rpc_url = network_url cl,
                               chain_id = cid, network_is_active = True \<rparr>]\<rparr>))) (\<lambda>_.
                 io_return pk))
       | [n] \<Rightarrow> io_return (network_pk n)
       | _ \<Rightarrow> io_raise (Exn ''MultipleObjectsReturned'' []))"

definition record_blockchain_transaction ::
  "BlockchainClient \<Rightarrow> web3_env \<Rightarrow> string \<Rightarrow> string \<Rightarrow> receipt \<Rightarrow> string
     \<Rightarrow> BlockchainTransaction option io" where
  "record_blockchain_transaction cl env tx_hash tx_type rc metadata =
     try_except
       (io_bind (rpc ChainId (eth_chain_id env)) (\<lambda>cid.
        io_bind (BlockchainNetwork_get_or_create_default cl cid) (\<lambda>net.
        io_bind fresh_pk (\<lambda>pk.
        let t = \<lparr> transaction_pk = pk, transaction_hash = tx_hash, transaction_type = tx_type,
                  from_address = (case r_from rc of None \<Rightarrow> [] | Some a \<Rightarrow> a),
                  to_address = (case r_to rc of None \<Rightarrow> [] | Some a \<Rightarrow> a),
                  gas_used = Some (case r_gasUsed rc of None \<Rightarrow> 0 | Some g \<Rightarrow> g),
                  gas_price = Some (case r_effectiveGasPrice rc of None \<Rightarrow> 0 | Some g \<Rightarrow> g),
                  block_number = Some (r_blockNumber rc),
                  block_hash = (case r_blockHash rc of None \<Rightarrow> [] | Some h \<Rightarrow> h),
                  status = (if r_status rc = 1 then ''CONFIRMED'' else ''FAILED''),
                  network = net, transaction_data = metadata \<rparr>
        in io_bind (db_write ''BlockchainTransaction'' (\<lambda>d. BlockchainTransaction_insert d t)) (\<lambda>_.
           io_return (Some t))))))
       (\<lambda>e. io_return None)"

definition vote_metadata :: "string \<Rightarrow> string \<Rightarrow> string" where
  "vote_metadata vhash party =
     (let q = [CHR 0x22] in
      ''{'' @ q @ ''voter_hash'' @ q @ '': '' @ q @ vhash @ q @ '', '' @
      q @ ''party_id'' @ q @ '': '' @ q @ party @ q @ ''}'')"

text \<open>The gas estimate, with the handler around it: any exception there gives the default
  gas limit.\<close>

definition estimate_gas_or_default ::
  "BlockchainClient \<Rightarrow> web3_env \<Rightarrow> string \<Rightarrow> string \<Rightarrow> int io" where
  "estimate_gas_or_default cl env voter_hash_bytes party =
     try_except
       (io_bind (lib (castVote_fn env voter_hash_bytes party)) (\<lambda>_.
        io_bind (account_address cl) (\<lambda>sender.
        rpc EstimateGas (castVote_estimate_gas env voter_hash_bytes party sender))))
       (\<lambda>e. io_return 200000)"

text \<open>The part of the body from ``Prepare transaction'' on: none of its calls, the gas
  estimate apart, has a handler of its own.\<close>

definition send_vote_transaction ::
  "BlockchainClient \<Rightarrow> web3_env \<Rightarrow> string \<Rightarrow> string \<Rightarrow> cast_result io" where
  "send_vote_transaction cl env vhash party =
     io_bind (lib (to_bytes_hexstr env vhash)) (\<lambda>voter_hash_bytes.
     io_bind (estimate_gas_or_default cl env voter_hash_bytes party) (\<lambda>gas_estimate.
     io_bind (lib (castVote_fn env voter_hash_bytes party)) (\<lambda>_.
     io_bind (account_address cl) (\<lambda>sender.
     io_bind (rpc GasPrice (eth_gas_price env)) (\<lambda>gp.
     io_bind (account_address cl) (\<lambda>sender'.
     io_bind (rpc GetTransactionCount (eth_get_transaction_count env sender')) (\<lambda>nonce.
     io_bind (rpc BuildTransaction
                (castVote_build_transaction env voter_hash_bytes party sender
                   (min (gas_estimate + 50000) 500000) gp nonce)) (\<lambda>txn.
     io_bind (lib (sign_transaction env txn (client_private_key cl))) (\<lambda>raw.
     io_bind (rpc (SendRawTransaction raw) (eth_send_raw_transaction env raw)) (\<lambda>tx_hash.
     io_bind (rpc (WaitForReceipt tx_hash)
                (eth_wait_for_transaction_receipt env tx_hash)) (\<lambda>rc.
     if r_status rc = 1 then
       io_bind (record_blockchain_transaction cl env tx_hash ''VOTE_CAST'' rc
                  (vote_metadata vhash party)) (\<lambda>_.
       io_return \<lparr> success = True, result_transaction_hash = Some tx_hash,
                   result_block_number = Some (r_blockNumber rc),
                   message = ''Vote successfully recorded on blockchain'' \<rparr>)
     else io_return (rejected ''Blockchain transaction failed''))))))))))))"

text \<open>The check that voting is active, with the handler around it: \<open>True\<close> when the contract
  answers that voting is not active, \<open>False\<close> when it is active and when the call raises.\<close>

definition voting_reported_inactive :: "web3_env \<Rightarrow> bool io" where
  "voting_reported_inactive env =
     try_except
       (io_bind (rpc IsVotingActive (isVotingActive_call env)) (\<lambda>voting_active.
          io_return (\<not> voting_active)))
       (\<lambda>e. io_return False)"

text \<open>The body of the outer \<^verbatim>\<open>try\<close> of \<open>cast_vote_on_blockchain\<close>.\<close>

definition cast_vote_body ::
  "BlockchainClient \<Rightarrow> web3_env \<Rightarrow> string \<Rightarrow> string \<Rightarrow> cast_result io" where
  "cast_vote_body cl env vhash party =
     (if contract cl = None then
        simulated env vhash party ''Vote recorded (simulated - blockchain not configured)''
      else
        io_bind (test_connection env) (\<lambda>connected.
        if \<not> connected then
          simulated env vhash party ''Vote recorded (simulated - connection failed)''
        else
          io_bind (has_voter_voted cl env vhash) (\<lambda>voted.
          if voted then io_return (rejected ''Voter has already cast a vote on blockchain'')
          else
            io_bind (voting_reported_inactive env) (\<lambda>inactive.
            if inactive then
              io_return (rejected ''Voting is not currently active on the blockchain'')
            else send_vote_transaction cl env vhash party))))"

definition exn_class :: "exn \<Rightarrow> string" where
  "exn_class e = (case e of Exn cls msg \<Rightarrow> cls)"

definition exn_str :: "exn \<Rightarrow> string" where
  "exn_str e = (case e of Exn cls msg \<Rightarrow> msg)"

definition cast_vote_on_blockchain ::
  "BlockchainClient \<Rightarrow> web3_env \<Rightarrow> string \<Rightarrow> string \<Rightarrow> cast_result io" where
  "cast_vote_on_blockchain cl env vhash party =
     io_bind (log_event (LedgerSubmit vhash party)) (\<lambda>_.
     try_except (cast_vote_body cl env vhash party)
       (\<lambda>e. simulated env vhash party
               (''Vote recorded (simulated due to blockchain error: '' @ exn_str e @ '')'')))"

text \<open>
  \<open>VoteRecord.objects.create\<close> with the keyword arguments the caller passes. The model has
  no column \<open>is_verified\<close>: it is a property without a setter, so a call that passes
  \<open>is_verified\<close> raises in the model's constructor, before any statement reaches the
  database. Without that keyword the row is saved; the UUID column then converts a
  \<^verbatim>\<open>str\<close>, and a party code (at most 20 characters) is not the text of a UUID.
\<close>

definition VoteRecord_objects_create ::
  "string \<Rightarrow> party_ref \<Rightarrow> int \<Rightarrow> BlockchainTransaction option \<Rightarrow> bool option \<Rightarrow> VoteRecord io" where
  "VoteRecord_objects_create vhash party ts tx is_verified_kw =
     (case is_verified_kw of
        Some b \<Rightarrow> io_raise (Exn ''AttributeError'' [])
      | None \<Rightarrow>
          (case party of
             PartyStr p \<Rightarrow> io_raise (Exn ''ValidationError'' [])
           | PartyUUID u \<Rightarrow>
               io_bind fresh_pk (\<lambda>pk.
               let r = \<lparr> record_pk = pk, voter_hash = vhash, record_party_id = u,
                         vote_timestamp = ts, blockchain_transaction = tx, merkle_proof = None \<rparr>
               in io_bind (db_write ''VoteRecord'' (\<lambda>d. VoteRecord_insert d r)) (\<lambda>_. io_return r))))"

definition create_vote_record ::
  "BlockchainClient \<Rightarrow> web3_env \<Rightarrow> string \<Rightarrow> string \<Rightarrow> string \<Rightarrow> VoteRecord option io" where
  "create_vote_record cl env vhash party tx_hash =
     try_except
       (io_bind (db_read (\<lambda>d. case filter (\<lambda>t. transaction_hash t = tx_hash) (transactions d) of
                                 [] \<Rightarrow> None | t # _ \<Rightarrow> Some t)) (\<lambda>blockchain_tx.
        io_bind (time_time env) (\<lambda>now.
        io_bind (verify_vote_on_blockchain cl env vhash (PartyStr party) tx_hash) (\<lambda>verified.
        io_bind (VoteRecord_objects_create vhash (PartyStr party) (py_int now) blockchain_tx
                   (Some verified))
          (\<lambda>vote_record. io_return (Some vote_record))))))
       (\<lambda>e. io_return None)"

subsection \<open>Audit\<close>

text \<open>\<^verbatim>\<open>record.is_verified = True\<close>: the property has no setter, the assignment raises.
  \<^verbatim>\<open>record.save()\<close> writes the record's columns over the stored row.\<close>

definition set_is_verified :: "VoteRecord \<Rightarrow> bool \<Rightarrow> VoteRecord io" where
  "set_is_verified r b = io_raise (Exn ''AttributeError'' [])"

definition VoteRecord_save :: "VoteRecord \<Rightarrow> unit io" where
  "VoteRecord_save r =
     db_write ''VoteRecord''
       (\<lambda>d. Inr (d\<lparr>vote_records :=
                     map (\<lambda>q. if record_pk q = record_pk r then r else q) (vote_records d)\<rparr>))"

fun audit_loop ::
  "BlockchainClient \<Rightarrow> web3_env \<Rightarrow> VoteRecord list \<Rightarrow> nat \<Rightarrow> nat \<Rightarrow> (nat \<times> nat) io" where
  "audit_loop cl env [] verified_count failed_count = io_return (verified_count, failed_count)"
| "audit_loop cl env (r # rs) verified_count failed_count =
     (case blockchain_transaction r of
        None \<Rightarrow> audit_loop cl env rs verified_count failed_count
      | Some t \<Rightarrow>
          io_bind (verify_vote_on_blockchain cl env (voter_hash r) (PartyUUID (record_party_id r))
                     (transaction_hash t)) (\<lambda>verified.
          if verified then
            io_bind (lib (is_verified r)) (\<lambda>flag.
            if \<not> flag then
              io_bind (set_is_verified r True) (\<lambda>r'.
              io_bind (VoteRecord_save r') (\<lambda>_.
              audit_loop cl env rs (verified_count + 1) failed_count))
            else audit_loop cl env rs (verified_count + 1) failed_count)
          else audit_loop cl env rs verified_count (failed_count + 1)))"

record audit_result =
  total_records :: nat
  verified_count :: nat
  failed_count :: nat
  integrity_percentage :: rat
  audit_status :: string
  audit_timestamp :: "int option"
  audit_message :: "string option"

text \<open>The percentage is a Python float in the source; here it is the exact quotient.\<close>

definition audit_vote_integrity :: "BlockchainClient \<Rightarrow> web3_env \<Rightarrow> audit_result io" where
  "audit_vote_integrity cl env =
     try_except
       (io_bind (db_read vote_records) (\<lambda>records.
        io_bind (audit_loop cl env records 0 0) (\<lambda>(verified, failed).
        let total = length records;
            percentage = (if total > 0 then of_nat verified / of_nat total * 100 else 100)
        in io_bind (time_time env) (\<lambda>now.
           io_return \<lparr> total_records = total, verified_count = verified, failed_count = failed,
                       integrity_percentage = percentage,
                       audit_status = (if percentage > 95 then ''success'' else ''warning''),
                       audit_timestamp = Some (py_int now), audit_message = None \<rparr>))))
       (\<lambda>e. io_return \<lparr> total_records = 0, verified_count = 0, failed_count = 0,
                          integrity_percentage = 0, audit_status = ''error'',
                          audit_timestamp = None, audit_message = Some (exn_str e) \<rparr>)"

subsection \<open>The management command's reading of the report (blockchain\_ops.py)\<close>

text \<open>\<open>audit_integrity\<close> prints one of three verdicts from the reported percentage.\<close>

datatype verdict = Excellent | Acceptable | Poor

definition audit_integrity_verdict :: "audit_result \<Rightarrow> verdict" where
  "audit_integrity_verdict res =
     (if integrity_percentage res \<ge> 95 then Excellent
      else if integrity_percentage res \<ge> 80 then Acceptable
      else Poor)"

section \<open>Vote submission (voting/views.py, \<open>CastVoteView.post\<close>)\<close>

datatype json_body = InvalidJson | JsonNonObject | JsonObject "string option"

type_synonym session = "string \<rightharpoonup> string"

record request =
  body :: json_body
  session :: session
  http_x_forwarded_for :: "string option"
  remote_addr :: "string option"

record django_settings =
  SECRET_KEY :: "string option"
  str_uuid :: "nat \<Rightarrow> string"

datatype response =
    JsonFailure string
  | JsonSuccess nat "string option" rat string

text \<open>\<open>Model.objects.get\<close> on the rows that pass the filter.\<close>

definition objects_get :: "string \<Rightarrow> (database \<Rightarrow> 'a list) \<Rightarrow> 'a io" where
  "objects_get model rows =
     io_bind (db_read rows) (\<lambda>found.
       case found of
         [] \<Rightarrow> io_raise (Exn (model @ ''.DoesNotExist'') [])
       | [x] \<Rightarrow> io_return x
       | _ \<Rightarrow> io_raise (Exn ''MultipleObjectsReturned'' []))"

definition generate_voter_hash :: "web3_env \<Rightarrow> django_settings \<Rightarrow> Voter \<Rightarrow> string" where
  "generate_voter_hash env st v =
     (let identifier = email v @ aadhaar_number v @ str_uuid st (voter_pk v);
          salt = (case SECRET_KEY st of None \<Rightarrow> ''default_salt'' | Some k \<Rightarrow> k);
          salted_identifier = identifier @ salt
      in ''0x'' @ sha256_hexdigest env salted_identifier)"

definition get_client_ip :: "request \<Rightarrow> string option" where
  "get_client_ip rq =
     (case http_x_forwarded_for rq of
        None \<Rightarrow> remote_addr rq
      | Some x \<Rightarrow> if x = [] then remote_addr rq else Some (takeWhile (\<lambda>ch. ch \<noteq> CHR '','') x))"

definition falsy :: "string option \<Rightarrow> bool" where
  "falsy v \<longleftrightarrow> v = None \<or> v = Some []"

text \<open>The inner \<^verbatim>\<open>try\<close> of the view: the voter by the session's e-mail address, then the
  party by the identifier sent, each active; a missing row is answered with its message,
  any other exception goes on to the outer handler.\<close>

definition lookup_voter_and_party ::
  "string option \<Rightarrow> string option \<Rightarrow> (string + Voter \<times> PoliticalParty) io" where
  "lookup_voter_and_party voter_email pid =
     try_except
       (io_bind (objects_get ''Voter''
                   (\<lambda>d. filter (\<lambda>w. Some (email w) = voter_email \<and> voter_is_active w)
                           (voters d))) (\<lambda>v.
        io_bind (objects_get ''PoliticalParty''
                   (\<lambda>d. filter (\<lambda>p. Some (party_id p) = pid \<and> party_is_active p)
                           (parties d))) (\<lambda>party.
        io_return (Inr (v, party)))))
       (\<lambda>e. if exn_class e = ''Voter.DoesNotExist'' then io_return (Inl ''Voter not found'')
            else if exn_class e = ''PoliticalParty.DoesNotExist''
              then io_return (Inl ''Invalid party selection'')
            else io_raise e)"

text \<open>The body of the \<^verbatim>\<open>with transaction.atomic()\<close> block.\<close>

definition commit_vote ::
  "BlockchainClient \<Rightarrow> web3_env \<Rightarrow> request \<Rightarrow> Voter \<Rightarrow> PoliticalParty \<Rightarrow> string
     \<Rightarrow> (response \<times> session) io" where
  "commit_vote cl env rq v party vhash =
     io_bind (cast_vote_on_blockchain cl env vhash (party_id party)) (\<lambda>blockchain_result.
     if \<not> success blockchain_result then
       io_return (JsonFailure (''Blockchain vote failed: '' @ message blockchain_result), session rq)
     else
       io_bind fresh_pk (\<lambda>pk.
       io_bind (time_time env) (\<lambda>created.
       io_bind (db_write ''Vote'' (\<lambda>d. Vote_insert d
                  \<lparr> vote_pk = pk, voter = voter_pk v, political_party = party_pk party,
                    blockchain_hash = result_transaction_hash blockchain_result,
                    blockchain_block_number = result_block_number blockchain_result,
                    voted_at = created, is_valid = True, ip_address = get_client_ip rq \<rparr>)) (\<lambda>_.
       io_bind (time_time env) (\<lambda>voted_at_attr.
       io_bind (db_write ''Voter'' (\<lambda>d. Inr (Voter_update d (v\<lparr>has_voted := True\<rparr>)))) (\<lambda>_.
       io_bind (create_vote_record cl env vhash (party_id party)
                  (case result_transaction_hash blockchain_result of None \<Rightarrow> [] | Some h \<Rightarrow> h))
         (\<lambda>vote_record.
       io_return (JsonSuccess pk (result_transaction_hash blockchain_result) created (party_name party),
                  (session rq)(''verified_voter_email'' := None,
                               ''verification_timestamp'' := None)))))))))"

definition CastVoteView_post ::
  "BlockchainClient option \<Rightarrow> web3_env \<Rightarrow> django_settings \<Rightarrow> request \<Rightarrow> (response \<times> session) io" where
  "CastVoteView_post client env st rq =
     try_except
       (case body rq of
          InvalidJson \<Rightarrow> io_raise (Exn ''JSONDecodeError'' [])
        | JsonNonObject \<Rightarrow> io_raise (Exn ''AttributeError'' [])
        | JsonObject pid \<Rightarrow>
            (let voter_email = session rq ''verified_voter_email'' in
             if falsy pid then io_return (JsonFailure ''Party ID is required'', session rq)
             else if falsy voter_email then
               io_return (JsonFailure ''Voter not verified. Please complete verification first.'',
                          session rq)
             else
               io_bind (lookup_voter_and_party voter_email pid)
                 (\<lambda>looked_up.
                    case looked_up of
                      Inl msg \<Rightarrow> io_return (JsonFailure msg, session rq)
                    | Inr (v, party) \<Rightarrow>
                        io_bind (db_read (\<lambda>d. \<exists>w \<in> set (votes d). voter w = voter_pk v)) (\<lambda>already.
                        if already then
                          io_return (JsonFailure
                            ''You have already cast your vote. Multiple voting is not allowed.'',
                            session rq)
                        else
                          (case client of
                             None \<Rightarrow> io_raise (Exn ''AttributeError'' [])
                           | Some cl \<Rightarrow>
                               (let vhash = generate_voter_hash env st v in
                                io_bind (has_voter_voted cl env vhash) (\<lambda>voted.
                                if voted then
                                  io_return (JsonFailure
                                    ''Vote already recorded on blockchain. Duplicate voting detected.'',
                                    session rq)
                                else
                                  io_bind (time_time env) (\<lambda>now1.
                                  io_bind (time_time env) (\<lambda>now2.
                                  io_bind (db_read (\<lambda>d. \<exists>vs \<in> set (voting_sessions d).
                                             session_is_active vs \<and> start_time vs \<le> now1
                                             \<and> end_time vs \<ge> now2)) (\<lambda>active_session.
                                  if \<not> active_session then
                                    io_return (JsonFailure ''No active voting session found'',
                                               session rq)
                                  else atomic (commit_vote cl env rq v party vhash)))))))))))
       (\<lambda>e. if exn_class e = ''JSONDecodeError''
               then io_return (JsonFailure ''Invalid JSON data'', session rq)
             else io_return (JsonFailure
               ''An error occurred while casting your vote. Please try again.'', session rq))"

text \<open>A request is served from a connection that is outside any transaction, with an
  empty log and a fresh clock.\<close>

definition serving :: "database \<Rightarrow> nat \<Rightarrow> world" where
  "serving d pk = \<lparr> db = d, trace = [], ticks = 0, next_pk = pk,
                     in_atomic_block = False, needs_rollback = False \<rparr>"

section \<open>Properties of runs\<close>

text \<open>A computation only ever appends to the log.\<close>

definition trace_extends :: "'a io \<Rightarrow> bool" where
  "trace_extends m \<longleftrightarrow> (\<forall>s. \<exists>t. trace (snd (m s)) = trace s @ t)"

text \<open>Between two worlds nothing was written: same database, same connection flags, same
  next primary key, and the log grew by entries that are not table writes.\<close>

definition writes_nothing :: "world \<Rightarrow> world \<Rightarrow> bool" where
  "writes_nothing s s' \<longleftrightarrow>
     db s' = db s \<and> in_atomic_block s' = in_atomic_block s
     \<and> needs_rollback s' = needs_rollback s \<and> next_pk s' = next_pk s
     \<and> (\<exists>t. trace s' = trace s @ t \<and> (\<forall>table. DbWrite table \<notin> set t))"

text \<open>In a log, no table write comes before the first ledger submit.\<close>

fun is_submit :: "event \<Rightarrow> bool" where
  "is_submit (LedgerSubmit vhash party) = True"
| "is_submit ev = False"

fun is_write :: "event \<Rightarrow> bool" where
  "is_write (DbWrite table) = True"
| "is_write ev = False"

definition submit_precedes_writes :: "event list \<Rightarrow> bool" where
  "submit_precedes_writes tr \<longleftrightarrow>
     \<not> list_ex is_write (takeWhile (\<lambda>ev. \<not> is_submit ev) tr)"

text \<open>A computation that logs neither a table write nor a ledger submit, and one whose
  own log entries keep every table write behind the first ledger submit.\<close>

definition silent :: "'a io \<Rightarrow> bool" where
  "silent m \<longleftrightarrow>
     (\<forall>s. \<exists>t. trace (snd (m s)) = trace s @ t \<and> \<not> list_ex is_write t \<and> \<not> list_ex is_submit t)"

definition ordered :: "'a io \<Rightarrow> bool" where
  "ordered m \<longleftrightarrow> (\<forall>s. \<exists>t. trace (snd (m s)) = trace s @ t \<and> submit_precedes_writes t)"

text \<open>A computation that leaves the table of vote records as it found it.\<close>

definition keeps_vote_records :: "'a io \<Rightarrow> bool" where
  "keeps_vote_records m \<longleftrightarrow> (\<forall>s. vote_records (db (snd (m s))) = vote_records (db s))"

section \<open>Example data\<close>

text \<open>A ledger node that answers every call, a client with a loaded contract, and a small
  election; the examples below vary them.\<close>

definition receipt_ok :: receipt where
  "receipt_ok = \<lparr> r_status = 1, r_blockNumber = 7, r_from = Some ''0xA'', r_to = Some ''0xC'',
                   r_gasUsed = Some 90000, r_effectiveGasPrice = Some 20, r_blockHash = Some ''0xB7'' \<rparr>"

definition ledger_up :: web3_env where
  "ledger_up =
     \<lparr> eth_get_block_latest = Inr 7,
       eth_chain_id = Inr 1337,
       eth_gas_price = Inr 20,
       eth_get_transaction_count = (\<lambda>a. Inr 0),
       to_bytes_hexstr = (\<lambda>h. Inr h),
       hasVoted_call = (\<lambda>b. Inr False),
       isVotingActive_call = Inr True,
       castVote_fn = (\<lambda>b p. Inr ()),
       castVote_estimate_gas = (\<lambda>b p a. Inr 90000),
       castVote_build_transaction = (\<lambda>b p a g gp n. Inr (''tx:'' @ p)),
       sign_transaction = (\<lambda>t k. Inr (''signed:'' @ t)),
       eth_send_raw_transaction = (\<lambda>raw. Inr ''0x77''),
       eth_wait_for_transaction_receipt = (\<lambda>h. Inr receipt_ok),
       eth_get_transaction_receipt = (\<lambda>h. Inr receipt_ok),
       VoteCast_process_receipt = (\<lambda>rc. Inr []),
       sha256_hexdigest = (\<lambda>x. ''digest:'' @ x),
       str_float = (\<lambda>t. ''t''),
       clock = (\<lambda>n. 1700000000 + of_nat n) \<rparr>"

definition client_up :: BlockchainClient where
  "client_up = \<lparr> network_url = ''http://127.0.0.1:7545'', client_private_key = Some ''key'',
                  contract_address = Some ''0xC'', account = Some ''0xA'', contract = Some ''0xC'' \<rparr>"

definition settings_up :: django_settings where
  "settings_up = \<lparr> SECRET_KEY = Some ''salt'', str_uuid = (\<lambda>n. ''uuid'') \<rparr>"

definition alice :: Voter where
  "alice = \<lparr> voter_pk = 1, email = ''a@x.org'', aadhaar_number = ''123456789012'',
              voter_is_active = True, has_voted = False \<rparr>"

definition election_db :: database where
  "election_db =
     \<lparr> voters = [alice],
       parties = [\<lparr> party_pk = 1, party_id = ''P1'', party_name = ''Party One'', party_is_active = True \<rparr>,
                  \<lparr> party_pk = 2, party_id = ''P2'', party_name = ''Party Two'', party_is_active = True \<rparr>],
       votes = [],
       voting_sessions = [\<lparr> session_is_active = True, start_time = 0, end_time = 2000000000 \<rparr>],
       networks = [], transactions = [], vote_records = [] \<rparr>"

definition alice_vote :: Vote where
  "alice_vote = \<lparr> vote_pk = 10, voter = 1, political_party = 1, blockchain_hash = Some ''0xaa'',
                   blockchain_block_number = Some 5, voted_at = 1700000000, is_valid = True,
                   ip_address = None \<rparr>"

definition vote_request :: request where
  "vote_request = \<lparr> body = JsonObject (Some ''P2''),
                     session = [''verified_voter_email'' \<mapsto> ''a@x.org''],
                     http_x_forwarded_for = None, remote_addr = Some ''10.0.0.1'' \<rparr>"

text \<open>A table of 100 vote records for the audit, all of one voter hash, for the party
  with key 1 and code \<open>P1\<close>. On the ledger \<open>audit_ledger\<close> the transactions of the first 95
  have a successful receipt with the event of the vote (that voter hash, that party's
  code), those of the last 5 have a failed receipt. The argument is the status stored with
  every transaction.\<close>

definition audit_transaction :: "string \<Rightarrow> nat \<Rightarrow> BlockchainTransaction" where
  "audit_transaction st i =
     \<lparr> transaction_pk = i,
       transaction_hash = (if i < 95 then ''0xa'' else ''0xf'') @ replicate i (CHR ''0''),
       transaction_type = ''vote'', from_address = ''0xA'', to_address = ''0xC'',
       gas_used = Some 90000, gas_price = Some 20, block_number = Some 7, block_hash = ''0xB7'',
       status = st, network = 1, transaction_data = [] \<rparr>"

definition audit_record :: "string \<Rightarrow> nat \<Rightarrow> VoteRecord" where
  "audit_record st i =
     \<lparr> record_pk = i, voter_hash = ''0xab'', record_party_id = 1,
       vote_timestamp = 1700000000, blockchain_transaction = Some (audit_transaction st i),
       merkle_proof = None \<rparr>"

definition audit_db :: "string \<Rightarrow> database" where
  "audit_db st =
     election_db\<lparr> transactions := map (audit_transaction st) [0..<100],
                  vote_records := map (audit_record st) [0..<100] \<rparr>"

definition audit_ledger :: web3_env where
  "audit_ledger =
     ledger_up\<lparr> eth_get_transaction_receipt :=
                   (\<lambda>h. Inr (receipt_ok\<lparr>r_status := (if take 3 h = ''0xa'' then 1 else 0)\<rparr>)),
                VoteCast_process_receipt := (\<lambda>rc. Inr [(''0xab'', ''P1'')]) \<rparr>"

text \<open>An election after 100 submissions through the view: 100 voters, each with a \<open>Vote\<close>
  row for party 1 carrying the hash of its ledger transaction, and the table of vote
  records as the view leaves it.\<close>

definition committed_voter :: "nat \<Rightarrow> Voter" where
  "committed_voter i =
     \<lparr> voter_pk = i, email = replicate i (CHR ''v'') @ ''@x.org'', aadhaar_number = ''123456789012'',
       voter_is_active = True, has_voted = True \<rparr>"

definition committed_vote :: "nat \<Rightarrow> Vote" where
  "committed_vote i =
     \<lparr> vote_pk = 1000 + i, voter = i, political_party = 1,
       blockchain_hash = Some ((if i < 95 then ''0xa'' else ''0xf'') @ replicate i (CHR ''0'')),
       blockchain_block_number = Some 7, voted_at = 1700000000, is_valid = True,
       ip_address = None \<rparr>"

definition committed_db :: database where
  "committed_db =
     election_db\<lparr> voters := map committed_voter [0..<100],
                  votes := map committed_vote [0..<100] \<rparr>"

text \<open>A first submission of Alice, on a ledger that confirms it, and the request that
  follows at once on the session the first one left.\<close>

definition first_submit :: "(exn + response \<times> session) \<times> world" where
  "first_submit =
     CastVoteView_post (Some client_up) ledger_up settings_up vote_request
       (serving election_db 100)"

definition second_request :: request where
  "second_request =
     vote_request\<lparr> session := (session vote_request)(''verified_voter_email'' := None,
                                                      ''verification_timestamp'' := None) \<rparr>"

section \<open>Verification: the challenge service\<close>

lemma verify_code_mismatch:
  assumes "\<not> get_raises be" "\<not> set_raises be"
    and "c (cache_key em) = Some (vd, expires)" "now < expires"
    and "attempts vd < max_attempts svc" "provided \<noteq> code vd"
  shows "verify_code svc be now c em provided =
           (VerifyErr INVALID_CODE (Some (max_attempts svc - (attempts vd + 1))),
            c(cache_key em \<mapsto> (vd\<lparr>attempts := attempts vd + 1\<rparr>, now + code_expiry_minutes svc * 60)))"
  using assms
  by (auto simp: verify_code_def get_verification_data_def cache_get_def cache_set_def Let_def)

lemma verify_code_exhausted:
  assumes "\<not> get_raises be" "\<not> delete_raises be"
    and "c (cache_key em) = Some (vd, expires)" "now < expires"
    and "max_attempts svc \<le> attempts vd"
  shows "verify_code svc be now c em provided =
           (VerifyErr MAX_ATTEMPTS_EXCEEDED None, c(cache_key em := None))"
  using assms
  by (auto simp: verify_code_def get_verification_data_def cache_get_def
        clear_verification_code_def cache_delete_def)

lemma verify_code_absent:
  assumes "c (cache_key em) = None"
  shows "verify_code svc be now c em provided = (VerifyErr CODE_NOT_FOUND None, c)"
  using assms by (simp add: verify_code_def get_verification_data_def cache_get_def)

lemma store_verification_code_healthy:
  "store_verification_code svc healthy_cache t0 c em cd =
     (True, c(cache_key em \<mapsto> (\<lparr> code = cd, created_at = t0, attempts = 0 \<rparr>,
                                  t0 + code_expiry_minutes svc * 60)))"
  by (simp add: store_verification_code_def cache_set_def healthy_cache_def)

text \<open>
  C4, as the code has it. A challenge is issued at \<open>tz\<close> with \<open>max_attempts = 3\<close>; each
  verification falls inside the time to live that the previous write set. Three wrong
  codes in succession give \<open>INVALID_CODE\<close> with 2, then 1, then 0 attempts remaining; the
  fourth call, whatever code it brings (the right one too), gives \<open>MAX_ATTEMPTS_EXCEEDED\<close>
  and purges the challenge; the fifth gives \<open>CODE_NOT_FOUND\<close>. In general, on a live
  challenge below the limit a wrong code leaves the counter incremented in the store and
  reports \<open>max_attempts\<close> minus the new counter.
\<close>

theorem verify_code_attempt_accounting:
  fixes sid tid pub priv :: string and svc :: EmailJSService
  defines "svc \<equiv> EmailJSService_init sid tid pub priv"
  assumes times: "ta < tz + 900" "tb < ta + 900" "tc < tb + 900" "td < tc + 900"
    and wrong: "wa \<noteq> cd" "wb \<noteq> cd" "wc \<noteq> cd"
  shows "fst (verify_run svc healthy_cache
                (snd (store_verification_code svc healthy_cache tz c em cd)) em
                [(ta, wa), (tb, wb), (tc, wc), (td, xd), (te, xe)])
           = [VerifyErr INVALID_CODE (Some 2), VerifyErr INVALID_CODE (Some 1),
              VerifyErr INVALID_CODE (Some 0), VerifyErr MAX_ATTEMPTS_EXCEEDED None,
              VerifyErr CODE_NOT_FOUND None]
         \<and> (\<forall>be c' vd expires now provided.
               \<not> get_raises be \<and> \<not> set_raises be \<and> c' (cache_key em) = Some (vd, expires)
               \<and> now < expires \<and> attempts vd < max_attempts svc \<and> provided \<noteq> code vd
               \<longrightarrow> verify_code svc be now c' em provided =
                     (VerifyErr INVALID_CODE (Some (max_attempts svc - (attempts vd + 1))),
                      c'(cache_key em \<mapsto> (vd\<lparr>attempts := attempts vd + 1\<rparr>,
                                            now + code_expiry_minutes svc * 60))))"
proof -
  have h: "\<not> get_raises healthy_cache" "\<not> set_raises healthy_cache" "\<not> delete_raises healthy_cache"
    by (simp_all add: healthy_cache_def)
  have p: "max_attempts svc = 3" "code_expiry_minutes svc * 60 = 900"
    by (simp_all add: svc_def EmailJSService_init_def)
  let ?k = "cache_key em"
  let ?vd = "\<lambda>n. \<lparr> code = cd, created_at = tz, attempts = n \<rparr>"
  let ?c0 = "c(?k \<mapsto> (?vd 0, tz + 900))"
  let ?c1 = "?c0(?k \<mapsto> (?vd 1, ta + 900))"
  let ?c2 = "?c1(?k \<mapsto> (?vd 2, tb + 900))"
  let ?c3 = "?c2(?k \<mapsto> (?vd 3, tc + 900))"
  have c0: "snd (store_verification_code svc healthy_cache tz c em cd) = ?c0"
    by (simp add: store_verification_code_healthy p)
  have s1: "verify_code svc healthy_cache ta ?c0 em wa = (VerifyErr INVALID_CODE (Some 2), ?c1)"
    using verify_code_mismatch [OF h(1) h(2), of ?c0 em "?vd 0" "tz + 900" ta svc wa] times wrong
    by (simp add: p)
  have s2: "verify_code svc healthy_cache tb ?c1 em wb = (VerifyErr INVALID_CODE (Some 1), ?c2)"
    using verify_code_mismatch [OF h(1) h(2), of ?c1 em "?vd 1" "ta + 900" tb svc wb] times wrong
    by (simp add: p)
  have s3: "verify_code svc healthy_cache tc ?c2 em wc = (VerifyErr INVALID_CODE (Some 0), ?c3)"
    using verify_code_mismatch [OF h(1) h(2), of ?c2 em "?vd 2" "tb + 900" tc svc wc] times wrong
    by (simp add: p)
  have s4: "verify_code svc healthy_cache td ?c3 em xd =
              (VerifyErr MAX_ATTEMPTS_EXCEEDED None, ?c3(?k := None))"
    using verify_code_exhausted [OF h(1) h(3), of ?c3 em "?vd 3" "tc + 900" td svc xd] times
    by (simp add: p)
  have s5: "verify_code svc healthy_cache te (?c3(?k := None)) em xe =
              (VerifyErr CODE_NOT_FOUND None, ?c3(?k := None))"
    by (rule verify_code_absent) simp
  have run: "fst (verify_run svc healthy_cache ?c0 em [(ta, wa), (tb, wb), (tc, wc), (td, xd), (te, xe)])
           = [VerifyErr INVALID_CODE (Some 2), VerifyErr INVALID_CODE (Some 1),
              VerifyErr INVALID_CODE (Some 0), VerifyErr MAX_ATTEMPTS_EXCEEDED None,
              VerifyErr CODE_NOT_FOUND None]"
    by (simp only: verify_run.simps s1 s2 s3 s4 s5 Let_def prod.case fst_conv)
  show ?thesis
    using run verify_code_mismatch by (simp only: c0) blast
qed

theorem verify_code_attempt_accounting_witness:
  "fst (verify_run (EmailJSService_init [] [] [] []) healthy_cache
          (snd (store_verification_code (EmailJSService_init [] [] [] []) healthy_cache 0
                  Map.empty ''H1'' ''482913'')) ''H1''
          [(60, ''482910''), (120, ''482910''), (180, ''482910''), (240, ''482913''),
           (300, ''482913'')])
     = [VerifyErr INVALID_CODE (Some 2), VerifyErr INVALID_CODE (Some 1),
        VerifyErr INVALID_CODE (Some 0), VerifyErr MAX_ATTEMPTS_EXCEEDED None,
        VerifyErr CODE_NOT_FOUND None]"
  using verify_code_attempt_accounting
          [where ta = 60 and tz = 0 and tb = 120 and tc = 180 and td = 240
             and wa = "''482910''" and cd = "''482913''" and wb = "''482910''" and wc = "''482910''"
             and sid = "[]" and tid = "[]" and pub = "[]" and priv = "[]" and c = Map.empty
             and em = "''H1''" and te = 300 and xd = "''482913''" and xe = "''482913''"]
  by simp

text \<open>C4 as the specification states it fails: the third wrong code is still compared and
  answered with \<open>INVALID_CODE\<close>, and the fourth call is the one that reports the exhausted
  challenge.\<close>

theorem verify_code_third_attempt_counterexample:
  "fst (verify_run (EmailJSService_init [] [] [] []) healthy_cache
          (snd (store_verification_code (EmailJSService_init [] [] [] []) healthy_cache 0
                  Map.empty ''H1'' ''482913'')) ''H1''
          [(60, ''482910''), (120, ''482910''), (180, ''482910''), (240, ''482913'')])
     \<noteq> [VerifyErr INVALID_CODE (Some 2), VerifyErr INVALID_CODE (Some 1),
         VerifyErr MAX_ATTEMPTS_EXCEEDED None, VerifyErr CODE_NOT_FOUND None]"
  by (simp add: verify_code_def get_verification_data_def cache_get_def cache_set_def
        cache_key_def store_verification_code_def EmailJSService_init_def healthy_cache_def
        clear_verification_code_def cache_delete_def)

text \<open>
  C7, as the code has it. Issuing a challenge while the store refuses the write reports
  \<open>STORAGE_ERROR\<close> and stores nothing. In \<open>verify_code\<close>, a failing write of the attempt
  counter reports \<open>SYSTEM_ERROR\<close>; a failing read is absorbed by \<open>get_verification_data\<close>
  and reported as \<open>CODE_NOT_FOUND\<close>, the answer for a missing or expired challenge.
\<close>

theorem storage_failure_reporting:
  "(is_configured svc \<and> set_raises be \<longrightarrow>
      send_verification_email svc be now rnd c em voter_name None = (SendErr STORAGE_ERROR, c))
   \<and> (\<not> get_raises be \<and> set_raises be \<and> c (cache_key em) = Some (vd, expires) \<and> now < expires
        \<and> attempts vd < max_attempts svc \<longrightarrow>
      verify_code svc be now c em provided = (VerifyErr SYSTEM_ERROR None, c))
   \<and> (get_raises be \<longrightarrow>
      verify_code svc be now c em provided = (VerifyErr CODE_NOT_FOUND None, c))"
  by (auto simp: send_verification_email_def store_verification_code_def cache_set_def
        verify_code_def get_verification_data_def cache_get_def Let_def)

theorem storage_failure_reporting_witness:
  "send_verification_email (EmailJSService_init ''s'' ''t'' ''p'' ''k'')
      (healthy_cache\<lparr>set_raises := True\<rparr>) 0 (\<lambda>i. i) Map.empty ''H1'' None None
     = (SendErr STORAGE_ERROR, Map.empty)
   \<and> verify_code (EmailJSService_init ''s'' ''t'' ''p'' ''k'') (healthy_cache\<lparr>set_raises := True\<rparr>) 60
        [cache_key ''H1'' \<mapsto> (\<lparr> code = ''482913'', created_at = 0, attempts = 0 \<rparr>, 900)]
        ''H1'' ''482913''
     = (VerifyErr SYSTEM_ERROR None,
        [cache_key ''H1'' \<mapsto> (\<lparr> code = ''482913'', created_at = 0, attempts = 0 \<rparr>, 900)])
   \<and> verify_code (EmailJSService_init ''s'' ''t'' ''p'' ''k'') (healthy_cache\<lparr>get_raises := True\<rparr>) 60
        [cache_key ''H1'' \<mapsto> (\<lparr> code = ''482913'', created_at = 0, attempts = 0 \<rparr>, 900)]
        ''H1'' ''482913''
     = (VerifyErr CODE_NOT_FOUND None,
        [cache_key ''H1'' \<mapsto> (\<lparr> code = ''482913'', created_at = 0, attempts = 0 \<rparr>, 900)])"
  using storage_failure_reporting
          [where svc = "EmailJSService_init ''s'' ''t'' ''p'' ''k''"
             and be = "healthy_cache\<lparr>set_raises := True\<rparr>" and now = 60 and em = "''H1''"
             and c = "[cache_key ''H1'' \<mapsto> (\<lparr> code = ''482913'', created_at = 0, attempts = 0 \<rparr>, 900)]"
             and vd = "\<lparr> code = ''482913'', created_at = 0, attempts = 0 \<rparr>" and expires = 900
             and provided = "''482913''"]
        storage_failure_reporting
          [where svc = "EmailJSService_init ''s'' ''t'' ''p'' ''k''"
             and be = "healthy_cache\<lparr>set_raises := True\<rparr>" and now = 0 and em = "''H1''"
             and c = Map.empty and rnd = "\<lambda>i. i" and voter_name = None]
        storage_failure_reporting
          [where be = "healthy_cache\<lparr>get_raises := True\<rparr>"
             and svc = "EmailJSService_init ''s'' ''t'' ''p'' ''k''" and now = 60 and em = "''H1''"
             and c = "[cache_key ''H1'' \<mapsto> (\<lparr> code = ''482913'', created_at = 0, attempts = 0 \<rparr>, 900)]"
             and provided = "''482913''"]
  by (simp add: healthy_cache_def EmailJSService_init_def is_configured_def)

text \<open>C7 as the specification states it fails: with a live challenge in the store and the
  right code provided, a read that raises is answered with \<open>CODE_NOT_FOUND\<close>.\<close>

theorem storage_failure_as_code_not_found_counterexample:
  "fst (verify_code (EmailJSService_init [] [] [] []) (healthy_cache\<lparr>get_raises := True\<rparr>) 60
          (snd (store_verification_code (EmailJSService_init [] [] [] []) healthy_cache 0
                  Map.empty ''H1'' ''482913'')) ''H1'' ''482913'')
     = VerifyErr CODE_NOT_FOUND None"
  by (simp add: verify_code_def get_verification_data_def cache_get_def healthy_cache_def)

section \<open>Verification: the ledger client\<close>

lemmas io_defs = io_return_def io_bind_def io_raise_def try_except_def rpc_def lib_def
  log_event_def time_time_def fresh_pk_def

lemma try_except_returns:
  assumes "\<And>e s. \<exists>v. fst (h e s) = Inr v"
  shows "\<exists>v. fst (try_except m h s) = Inr v"
proof (cases "m s")
  case (Pair r s')
  show ?thesis
  proof (cases r)
    case (Inl e)
    with Pair assms [of e s'] show ?thesis by (simp add: try_except_def)
  next
    case (Inr v)
    with Pair show ?thesis by (simp add: try_except_def)
  qed
qed

lemma simulated_run:
  "simulated env vhash party msg s =
     (Inr \<lparr> success = True,
            result_transaction_hash =
              Some (''0x'' @ sha256_hexdigest env (vhash @ party @ str_float env (clock env (ticks s)))),
            result_block_number = Some (py_int (clock env (Suc (ticks s))) mod 1000000),
            message = msg \<rparr>,
      s\<lparr>ticks := Suc (Suc (ticks s))\<rparr>)"
  by (simp add: simulated_def io_defs)

lemma has_voter_voted_returns: "\<exists>b. fst (has_voter_voted cl env h s) = Inr b"
  unfolding has_voter_voted_def
  by (cases "contract cl = None") (auto simp: io_return_def intro!: try_except_returns)

text \<open>
  C9. \<open>has_voter_voted\<close> always returns a Boolean, never an exception; it returns \<open>False\<close>
  when no contract is loaded, when the hash cannot be converted, and when the ledger call
  raises: the same value as the ledger's own negative answer.
\<close>

theorem has_voter_voted_fails_open:
  "(\<exists>b. fst (has_voter_voted cl env h s) = Inr b) \<and>
   (contract cl = None \<or> isl (to_bytes_hexstr env h)
      \<or> (\<exists>b. to_bytes_hexstr env h = Inr b \<and> isl (hasVoted_call env b))
      \<or> (\<exists>b. to_bytes_hexstr env h = Inr b \<and> hasVoted_call env b = Inr False)
    \<longrightarrow> fst (has_voter_voted cl env h s) = Inr False)"
  using has_voter_voted_returns [of cl env h s]
  by (auto simp: has_voter_voted_def io_defs isl_def split: sum.splits)

theorem has_voter_voted_fails_open_witness:
  "fst (has_voter_voted client_up
          (ledger_up\<lparr>hasVoted_call := (\<lambda>b. Inl (Exn ''ConnectionError'' ''timed out''))\<rparr>)
          ''0xab'' (serving election_db 100)) = Inr False
   \<and> fst (has_voter_voted (client_up\<lparr>contract := None\<rparr>)
            (ledger_up\<lparr>hasVoted_call := (\<lambda>b. Inr True)\<rparr>) ''0xab'' (serving election_db 100))
       = Inr False"
  using has_voter_voted_fails_open
          [where cl = client_up and h = "''0xab''" and s = "serving election_db 100"
             and env = "ledger_up\<lparr>hasVoted_call := (\<lambda>b. Inl (Exn ''ConnectionError'' ''timed out''))\<rparr>"]
        has_voter_voted_fails_open
          [where cl = "client_up\<lparr>contract := None\<rparr>" and h = "''0xab''"
             and s = "serving election_db 100"
             and env = "ledger_up\<lparr>hasVoted_call := (\<lambda>b. Inr True)\<rparr>"]
  by (simp add: ledger_up_def client_up_def)

text \<open>
  C10. With no contract loaded, \<open>cast_vote_on_blockchain\<close> returns the successful simulated
  result at once: the only entry it adds to the call log is its own invocation, so neither
  \<open>hasVoted\<close> nor \<open>isVotingActive\<close> is called, whatever the ledger would have answered.
\<close>

theorem cast_vote_without_contract:
  "contract cl = None \<Longrightarrow>
   cast_vote_on_blockchain cl env vhash party s =
     (Inr \<lparr> success = True,
            result_transaction_hash =
              Some (''0x'' @ sha256_hexdigest env (vhash @ party @ str_float env (clock env (ticks s)))),
            result_block_number = Some (py_int (clock env (Suc (ticks s))) mod 1000000),
            message = ''Vote recorded (simulated - blockchain not configured)'' \<rparr>,
      s\<lparr>trace := trace s @ [LedgerSubmit vhash party], ticks := Suc (Suc (ticks s))\<rparr>)"
  by (simp add: cast_vote_on_blockchain_def cast_vote_body_def
        send_vote_transaction_def estimate_gas_or_default_def voting_reported_inactive_def simulated_run io_defs)

theorem cast_vote_without_contract_witness:
  "trace (snd (cast_vote_on_blockchain (client_up\<lparr>contract := None\<rparr>)
                 (ledger_up\<lparr>hasVoted_call := (\<lambda>b. Inr True), isVotingActive_call := Inr False\<rparr>)
                 ''0xab'' ''P1'' (serving election_db 100)))
     = [LedgerSubmit ''0xab'' ''P1'']
   \<and> map_sum id success
         (fst (cast_vote_on_blockchain (client_up\<lparr>contract := None\<rparr>)
                 (ledger_up\<lparr>hasVoted_call := (\<lambda>b. Inr True), isVotingActive_call := Inr False\<rparr>)
                 ''0xab'' ''P1'' (serving election_db 100)))
     = Inr True"
  using cast_vote_without_contract
          [where cl = "client_up\<lparr>contract := None\<rparr>" and vhash = "''0xab''" and party = "''P1''"
             and s = "serving election_db 100"
             and env = "ledger_up\<lparr>hasVoted_call := (\<lambda>b. Inr True), isVotingActive_call := Inr False\<rparr>"]
  by (simp add: client_up_def serving_def)

subsection \<open>Degrading to a simulated result\<close>

lemma has_voter_voted_world:
  "\<exists>t. snd (has_voter_voted cl env h s) = s\<lparr>trace := trace s @ t\<rparr> \<and> \<not> list_ex is_write t"
proof (cases "contract cl = None")
  case True
  then have "snd (has_voter_voted cl env h s) = s\<lparr>trace := trace s @ []\<rparr>
             \<and> \<not> list_ex is_write []"
    by (simp add: has_voter_voted_def io_return_def)
  then show ?thesis by (rule exI [where x = "[]"])
next
  case False
  show ?thesis
  proof (cases "to_bytes_hexstr env h")
    case (Inl e)
    with False have "snd (has_voter_voted cl env h s) = s\<lparr>trace := trace s @ []\<rparr>
                     \<and> \<not> list_ex is_write []"
      by (simp add: has_voter_voted_def io_defs)
    then show ?thesis by (rule exI [where x = "[]"])
  next
    case (Inr b)
    with False have "snd (has_voter_voted cl env h s) = s\<lparr>trace := trace s @ [HasVoted h]\<rparr>
                     \<and> \<not> list_ex is_write [HasVoted h]"
      by (simp add: has_voter_voted_def io_defs split: sum.splits)
    then show ?thesis by (rule exI [where x = "[HasVoted h]"])
  qed
qed

lemma has_voter_voted_answer:
  "fst (has_voter_voted cl env h s) = fst (has_voter_voted cl env h s')"
  by (simp add: has_voter_voted_def io_defs split: sum.splits)

lemma voting_reported_inactive_run:
  "voting_reported_inactive env s =
     (Inr (isVotingActive_call env = Inr False), s\<lparr>trace := trace s @ [IsVotingActive]\<rparr>)"
  by (cases "isVotingActive_call env") (auto simp: voting_reported_inactive_def io_defs)

text \<open>With a contract, a successful probe, no earlier vote seen and voting not reported
  inactive, the call goes on to prepare and send the transaction.\<close>

lemma cast_reaches_transaction:
  assumes "contract cl \<noteq> None" "eth_get_block_latest env = Inr n"
    and "fst (has_voter_voted cl env vhash s) = Inr False"
    and "isVotingActive_call env \<noteq> Inr False"
  shows "\<exists>t. cast_vote_on_blockchain cl env vhash party s =
           try_except (send_vote_transaction cl env vhash party)
             (\<lambda>e. simulated env vhash party
                     (''Vote recorded (simulated due to blockchain error: '' @ exn_str e @ '')''))
             (s\<lparr>trace := trace s @ t\<rparr>)"
proof -
  let ?s1 = "s\<lparr>trace := trace s @ [LedgerSubmit vhash party, GetBlock]\<rparr>"
  from assms(1) obtain ca where ca: "contract cl = Some ca"
    by (cases "contract cl") simp_all
  obtain t where t: "snd (has_voter_voted cl env vhash ?s1) = ?s1\<lparr>trace := trace ?s1 @ t\<rparr>"
    using has_voter_voted_world by blast
  have "fst (has_voter_voted cl env vhash ?s1) = Inr False"
    using assms(3) has_voter_voted_answer [of cl env vhash ?s1 s] by simp
  with t have hv: "has_voter_voted cl env vhash ?s1 = (Inr False, ?s1\<lparr>trace := trace ?s1 @ t\<rparr>)"
    by (cases "has_voter_voted cl env vhash ?s1") simp
  have "cast_vote_on_blockchain cl env vhash party s =
           try_except (send_vote_transaction cl env vhash party)
             (\<lambda>e. simulated env vhash party
                     (''Vote recorded (simulated due to blockchain error: '' @ exn_str e @ '')''))
             (s\<lparr>trace := trace s @ ([LedgerSubmit vhash party, GetBlock] @ t @ [IsVotingActive])\<rparr>)"
    using ca assms(2,4)
    by (simp add: cast_vote_on_blockchain_def cast_vote_body_def test_connection_def hv
          voting_reported_inactive_run io_defs)
  then show ?thesis by blast
qed

lemma estimate_gas_or_default_run:
  "\<exists>t. estimate_gas_or_default cl env b party s =
         (Inr (case castVote_fn env b party of
                 Inl e \<Rightarrow> 200000
               | Inr u \<Rightarrow> (case account cl of
                             None \<Rightarrow> 200000
                           | Some a \<Rightarrow> (case castVote_estimate_gas env b party a of
                                          Inl e \<Rightarrow> 200000 | Inr g \<Rightarrow> g))),
          s\<lparr>trace := trace s @ t\<rparr>)"
proof (cases "castVote_fn env b party")
  case (Inl e)
  then have "estimate_gas_or_default cl env b party s = (Inr 200000, s\<lparr>trace := trace s @ []\<rparr>)"
    by (simp add: estimate_gas_or_default_def io_defs)
  with Inl show ?thesis by (intro exI [where x = "[]"]) simp
next
  case (Inr u)
  show ?thesis
  proof (cases "account cl")
    case None
    with Inr have "estimate_gas_or_default cl env b party s = (Inr 200000, s\<lparr>trace := trace s @ []\<rparr>)"
      by (simp add: estimate_gas_or_default_def account_address_def io_defs)
    with Inr None show ?thesis by (intro exI [where x = "[]"]) simp
  next
    case (Some a)
    with Inr have "estimate_gas_or_default cl env b party s =
        (Inr (case castVote_estimate_gas env b party a of Inl e \<Rightarrow> 200000 | Inr g \<Rightarrow> g),
         s\<lparr>trace := trace s @ [EstimateGas]\<rparr>)"
      by (simp add: estimate_gas_or_default_def account_address_def io_defs split: sum.splits)
    with Inr Some show ?thesis by (intro exI [where x = "[EstimateGas]"]) simp
  qed
qed

text \<open>Where the preparation and sending stops with an exception: at the first of its
  calls that raises. The clock is not read on the way.\<close>

lemma send_vote_transaction_raises:
  fixes cl env vhash party s
  defines "send_fails \<equiv> (\<lambda>x. \<exists>s'. send_vote_transaction cl env vhash party s = (Inl x, s')
                               \<and> ticks s' = ticks s)"
  shows "to_bytes_hexstr env vhash = Inl e \<Longrightarrow> send_fails e"
    and "to_bytes_hexstr env vhash = Inr b \<Longrightarrow> castVote_fn env b party = Inl e \<Longrightarrow> send_fails e"
    and "to_bytes_hexstr env vhash = Inr b \<Longrightarrow> castVote_fn env b party = Inr () \<Longrightarrow>
         account cl = None \<Longrightarrow>
         send_fails (Exn ''AttributeError'' ''NoneType object has no attribute address'')"
    and "to_bytes_hexstr env vhash = Inr b \<Longrightarrow> castVote_fn env b party = Inr () \<Longrightarrow>
         account cl = Some a \<Longrightarrow> eth_gas_price env = Inl e \<Longrightarrow> send_fails e"
    and "to_bytes_hexstr env vhash = Inr b \<Longrightarrow> castVote_fn env b party = Inr () \<Longrightarrow>
         account cl = Some a \<Longrightarrow> eth_gas_price env = Inr gp \<Longrightarrow>
         eth_get_transaction_count env a = Inl e \<Longrightarrow> send_fails e"
    and "to_bytes_hexstr env vhash = Inr b \<Longrightarrow> castVote_fn env b party = Inr () \<Longrightarrow>
         account cl = Some a \<Longrightarrow> eth_gas_price env = Inr gp \<Longrightarrow>
         eth_get_transaction_count env a = Inr k \<Longrightarrow>
         castVote_build_transaction env b party a
           (min ((case castVote_estimate_gas env b party a of
                    Inl x \<Rightarrow> 200000 | Inr g \<Rightarrow> g) + 50000) 500000) gp k = Inl e \<Longrightarrow>
         send_fails e"
    and "to_bytes_hexstr env vhash = Inr b \<Longrightarrow> castVote_fn env b party = Inr () \<Longrightarrow>
         account cl = Some a \<Longrightarrow> eth_gas_price env = Inr gp \<Longrightarrow>
         eth_get_transaction_count env a = Inr k \<Longrightarrow>
         castVote_build_transaction env b party a
           (min ((case castVote_estimate_gas env b party a of
                    Inl x \<Rightarrow> 200000 | Inr g \<Rightarrow> g) + 50000) 500000) gp k = Inr txn \<Longrightarrow>
         sign_transaction env txn (client_private_key cl) = Inl e \<Longrightarrow> send_fails e"
    and "to_bytes_hexstr env vhash = Inr b \<Longrightarrow> castVote_fn env b party = Inr () \<Longrightarrow>
         account cl = Some a \<Longrightarrow> eth_gas_price env = Inr gp \<Longrightarrow>
         eth_get_transaction_count env a = Inr k \<Longrightarrow>
         castVote_build_transaction env b party a
           (min ((case castVote_estimate_gas env b party a of
                    Inl x \<Rightarrow> 200000 | Inr g \<Rightarrow> g) + 50000) 500000) gp k = Inr txn \<Longrightarrow>
         sign_transaction env txn (client_private_key cl) = Inr raw \<Longrightarrow>
         eth_send_raw_transaction env raw = Inl e \<Longrightarrow> send_fails e"
    and "to_bytes_hexstr env vhash = Inr b \<Longrightarrow> castVote_fn env b party = Inr () \<Longrightarrow>
         account cl = Some a \<Longrightarrow> eth_gas_price env = Inr gp \<Longrightarrow>
         eth_get_transaction_count env a = Inr k \<Longrightarrow>
         castVote_build_transaction env b party a
           (min ((case castVote_estimate_gas env b party a of
                    Inl x \<Rightarrow> 200000 | Inr g \<Rightarrow> g) + 50000) 500000) gp k = Inr txn \<Longrightarrow>
         sign_transaction env txn (client_private_key cl) = Inr raw \<Longrightarrow>
         eth_send_raw_transaction env raw = Inr tx \<Longrightarrow>
         eth_wait_for_transaction_receipt env tx = Inl e \<Longrightarrow> send_fails e"
proof -
  obtain t where
    t: "estimate_gas_or_default cl env b party s =
         (Inr (case castVote_fn env b party of
                 Inl e \<Rightarrow> 200000
               | Inr u \<Rightarrow> (case account cl of
                             None \<Rightarrow> 200000
                           | Some a \<Rightarrow> (case castVote_estimate_gas env b party a of
                                          Inl e \<Rightarrow> 200000 | Inr g \<Rightarrow> g))),
          s\<lparr>trace := trace s @ t\<rparr>)"
    using estimate_gas_or_default_run [of cl env b party s] by blast
  show "to_bytes_hexstr env vhash = Inl e \<Longrightarrow> send_fails e"
    unfolding send_fails_def by (simp add: send_vote_transaction_def io_defs)
  show "to_bytes_hexstr env vhash = Inr b \<Longrightarrow> castVote_fn env b party = Inl e \<Longrightarrow> send_fails e"
    unfolding send_fails_def by (simp add: send_vote_transaction_def t io_defs)
  show "to_bytes_hexstr env vhash = Inr b \<Longrightarrow> castVote_fn env b party = Inr () \<Longrightarrow>
         account cl = None \<Longrightarrow>
         send_fails (Exn ''AttributeError'' ''NoneType object has no attribute address'')"
    unfolding send_fails_def by (simp add: send_vote_transaction_def t account_address_def io_defs)
  show "to_bytes_hexstr env vhash = Inr b \<Longrightarrow> castVote_fn env b party = Inr () \<Longrightarrow>
         account cl = Some a \<Longrightarrow> eth_gas_price env = Inl e \<Longrightarrow> send_fails e"
    unfolding send_fails_def by (simp add: send_vote_transaction_def t account_address_def io_defs)
  show "to_bytes_hexstr env vhash = Inr b \<Longrightarrow> castVote_fn env b party = Inr () \<Longrightarrow>
         account cl = Some a \<Longrightarrow> eth_gas_price env = Inr gp \<Longrightarrow>
         eth_get_transaction_count env a = Inl e \<Longrightarrow> send_fails e"
    unfolding send_fails_def by (simp add: send_vote_transaction_def t account_address_def io_defs)
  show "to_bytes_hexstr env vhash = Inr b \<Longrightarrow> castVote_fn env b party = Inr () \<Longrightarrow>
         account cl = Some a \<Longrightarrow> eth_gas_price env = Inr gp \<Longrightarrow>
         eth_get_transaction_count env a = Inr k \<Longrightarrow>
         castVote_build_transaction env b party a
           (min ((case castVote_estimate_gas env b party a of
                    Inl x \<Rightarrow> 200000 | Inr g \<Rightarrow> g) + 50000) 500000) gp k = Inl e \<Longrightarrow>
         send_fails e"
    unfolding send_fails_def by (simp add: send_vote_transaction_def t account_address_def io_defs)
  show "to_bytes_hexstr env vhash = Inr b \<Longrightarrow> castVote_fn env b party = Inr () \<Longrightarrow>
         account cl = Some a \<Longrightarrow> eth_gas_price env = Inr gp \<Longrightarrow>
         eth_get_transaction_count env a = Inr k \<Longrightarrow>
         castVote_build_transaction env b party a
           (min ((case castVote_estimate_gas env b party a of
                    Inl x \<Rightarrow> 200000 | Inr g \<Rightarrow> g) + 50000) 500000) gp k = Inr txn \<Longrightarrow>
         sign_transaction env txn (client_private_key cl) = Inl e \<Longrightarrow> send_fails e"
    unfolding send_fails_def by (simp add: send_vote_transaction_def t account_address_def io_defs)
  show "to_bytes_hexstr env vhash = Inr b \<Longrightarrow> castVote_fn env b party = Inr () \<Longrightarrow>
         account cl = Some a \<Longrightarrow> eth_gas_price env = Inr gp \<Longrightarrow>
         eth_get_transaction_count env a = Inr k \<Longrightarrow>
         castVote_build_transaction env b party a
           (min ((case castVote_estimate_gas env b party a of
                    Inl x \<Rightarrow> 200000 | Inr g \<Rightarrow> g) + 50000) 500000) gp k = Inr txn \<Longrightarrow>
         sign_transaction env txn (client_private_key cl) = Inr raw \<Longrightarrow>
         eth_send_raw_transaction env raw = Inl e \<Longrightarrow> send_fails e"
    unfolding send_fails_def by (simp add: send_vote_transaction_def t account_address_def io_defs)
  show "to_bytes_hexstr env vhash = Inr b \<Longrightarrow> castVote_fn env b party = Inr () \<Longrightarrow>
         account cl = Some a \<Longrightarrow> eth_gas_price env = Inr gp \<Longrightarrow>
         eth_get_transaction_count env a = Inr k \<Longrightarrow>
         castVote_build_transaction env b party a
           (min ((case castVote_estimate_gas env b party a of
                    Inl x \<Rightarrow> 200000 | Inr g \<Rightarrow> g) + 50000) 500000) gp k = Inr txn \<Longrightarrow>
         sign_transaction env txn (client_private_key cl) = Inr raw \<Longrightarrow>
         eth_send_raw_transaction env raw = Inr tx \<Longrightarrow>
         eth_wait_for_transaction_receipt env tx = Inl e \<Longrightarrow> send_fails e"
    unfolding send_fails_def by (simp add: send_vote_transaction_def t account_address_def io_defs)
qed

text \<open>The three handlers inside the body absorb what their calls raise: the run is the
  one of a ledger on which the call answers the handler's default.\<close>

lemma voting_check_absorbed:
  assumes "isl (isVotingActive_call env)"
  shows "cast_vote_on_blockchain cl env vhash party s =
         cast_vote_on_blockchain cl (env\<lparr>isVotingActive_call := Inr True\<rparr>) vhash party s"
proof -
  let ?env = "env\<lparr>isVotingActive_call := Inr True\<rparr>"
  have sim: "simulated ?env vhash party msg = simulated env vhash party msg" for msg
    by (simp add: simulated_def time_time_def)
  have probe: "test_connection ?env = test_connection env"
    by (simp add: test_connection_def)
  have voted: "has_voter_voted cl ?env vhash = has_voter_voted cl env vhash"
    by (simp add: has_voter_voted_def)
  have active: "voting_reported_inactive ?env = voting_reported_inactive env"
    using assms by (cases "isVotingActive_call env") (auto simp: voting_reported_inactive_run)
  have send: "send_vote_transaction cl ?env vhash party = send_vote_transaction cl env vhash party"
    by (simp add: send_vote_transaction_def estimate_gas_or_default_def
          record_blockchain_transaction_def cong: if_cong)
  have "cast_vote_body cl ?env vhash party = cast_vote_body cl env vhash party"
    by (simp add: cast_vote_body_def sim probe voted active send cong: if_cong)
  then show ?thesis
    by (simp add: cast_vote_on_blockchain_def sim)
qed

lemma has_voted_check_absorbed:
  assumes "to_bytes_hexstr env vhash = Inr b" "isl (hasVoted_call env b)"
  shows "cast_vote_on_blockchain cl env vhash party s =
         cast_vote_on_blockchain cl (env\<lparr>hasVoted_call := (\<lambda>x. Inr False)\<rparr>) vhash party s"
proof -
  let ?env = "env\<lparr>hasVoted_call := (\<lambda>x. Inr False)\<rparr>"
  have sim: "simulated ?env vhash party msg = simulated env vhash party msg" for msg
    by (simp add: simulated_def time_time_def)
  have probe: "test_connection ?env = test_connection env"
    by (simp add: test_connection_def)
  have voted: "has_voter_voted cl ?env vhash = has_voter_voted cl env vhash"
    using assms by (cases "hasVoted_call env b") (auto simp: has_voter_voted_def io_defs)
  have active: "voting_reported_inactive ?env = voting_reported_inactive env"
    by (simp add: voting_reported_inactive_def)
  have send: "send_vote_transaction cl ?env vhash party = send_vote_transaction cl env vhash party"
    by (simp add: send_vote_transaction_def estimate_gas_or_default_def
          record_blockchain_transaction_def cong: if_cong)
  have "cast_vote_body cl ?env vhash party = cast_vote_body cl env vhash party"
    by (simp add: cast_vote_body_def sim probe voted active send cong: if_cong)
  then show ?thesis
    by (simp add: cast_vote_on_blockchain_def sim)
qed

lemma gas_estimate_absorbed:
  assumes "to_bytes_hexstr env vhash = Inr b" "account cl = Some a"
    and "isl (castVote_estimate_gas env b party a)"
  shows "cast_vote_on_blockchain cl env vhash party s =
         cast_vote_on_blockchain cl (env\<lparr>castVote_estimate_gas := (\<lambda>x y z. Inr 200000)\<rparr>)
           vhash party s"
proof -
  let ?env = "env\<lparr>castVote_estimate_gas := (\<lambda>x y z. Inr 200000)\<rparr>"
  have sim: "simulated ?env vhash party msg = simulated env vhash party msg" for msg
    by (simp add: simulated_def time_time_def)
  have probe: "test_connection ?env = test_connection env"
    by (simp add: test_connection_def)
  have voted: "has_voter_voted cl ?env vhash = has_voter_voted cl env vhash"
    by (simp add: has_voter_voted_def)
  have active: "voting_reported_inactive ?env = voting_reported_inactive env"
    by (simp add: voting_reported_inactive_def)
  have est: "estimate_gas_or_default cl ?env b party = estimate_gas_or_default cl env b party"
    using assms(2,3)
    by (cases "castVote_estimate_gas env b party a")
       (auto simp: estimate_gas_or_default_def account_address_def io_defs split: sum.splits)
  have send: "send_vote_transaction cl ?env vhash party = send_vote_transaction cl env vhash party"
    using assms(1)
    by (simp add: send_vote_transaction_def est record_blockchain_transaction_def lib_def
          io_bind_def cong: if_cong)
  have "cast_vote_body cl ?env vhash party = cast_vote_body cl env vhash party"
    by (simp add: cast_vote_body_def sim probe voted active send cong: if_cong)
  then show ?thesis
    by (simp add: cast_vote_on_blockchain_def sim)
qed


text \<open>
  C2, as the code has it. \<open>cast_vote_on_blockchain\<close> always returns a result, never an
  exception. The simulated result is the successful one whose transaction identifier is
  \<open>0x\<close> followed by the hash of voter hash, party and the clock reading. It is returned
  when the connectivity probe fails. It is returned, with the exception's text in the
  message, when the call has gone on to the transaction and one of the calls there without
  a handler of its own raises: the conversion of the hash, the construction of the contract
  call, the sender's address, the gas price, the nonce, the building, the signing, the
  broadcast, the wait for the receipt. What \<open>hasVoted\<close>, \<open>isVotingActive\<close> and the gas
  estimate raise is absorbed by the handlers around them: the run is then the one of a
  ledger that answers ``not voted'', ``active'' and the default gas limit, so that it may
  end confirmed or rejected.
\<close>

theorem cast_vote_degrades_to_simulated:
  fixes cl :: BlockchainClient and env :: web3_env and vhash party :: string and s :: world
    and simulated_for :: "exn \<Rightarrow> bool"
  defines "simulated_for \<equiv> \<lambda>x.
     fst (cast_vote_on_blockchain cl env vhash party s) =
       fst (simulated env vhash party
              (''Vote recorded (simulated due to blockchain error: '' @ exn_str x @ '')'') s)"
  shows
  "(\<exists>r. fst (cast_vote_on_blockchain cl env vhash party s) = Inr r)
   \<and> fst (simulated env vhash party msg s) =
       Inr \<lparr> success = True,
             result_transaction_hash =
               Some (''0x'' @ sha256_hexdigest env
                                (vhash @ party @ str_float env (clock env (ticks s)))),
             result_block_number = Some (py_int (clock env (Suc (ticks s))) mod 1000000),
             message = msg \<rparr>
   \<and> (contract cl \<noteq> None \<and> isl (eth_get_block_latest env) \<longrightarrow>
        fst (cast_vote_on_blockchain cl env vhash party s) =
          fst (simulated env vhash party ''Vote recorded (simulated - connection failed)'' s))
   \<and> (isl (isVotingActive_call env) \<longrightarrow>
        cast_vote_on_blockchain cl env vhash party s =
          cast_vote_on_blockchain cl (env\<lparr>isVotingActive_call := Inr True\<rparr>) vhash party s)
   \<and> (to_bytes_hexstr env vhash = Inr b \<and> isl (hasVoted_call env b) \<longrightarrow>
        cast_vote_on_blockchain cl env vhash party s =
          cast_vote_on_blockchain cl (env\<lparr>hasVoted_call := (\<lambda>x. Inr False)\<rparr>) vhash party s)
   \<and> (to_bytes_hexstr env vhash = Inr b \<and> account cl = Some a
        \<and> isl (castVote_estimate_gas env b party a) \<longrightarrow>
        cast_vote_on_blockchain cl env vhash party s =
          cast_vote_on_blockchain cl (env\<lparr>castVote_estimate_gas := (\<lambda>x y z. Inr 200000)\<rparr>)
            vhash party s)
   \<and> (contract cl \<noteq> None \<and> eth_get_block_latest env = Inr n
        \<and> fst (has_voter_voted cl env vhash s) = Inr False
        \<and> isVotingActive_call env \<noteq> Inr False \<longrightarrow>
(to_bytes_hexstr env vhash = Inl e \<longrightarrow> simulated_for e)
        \<and> (to_bytes_hexstr env vhash = Inr b \<longrightarrow>
            (castVote_fn env b party = Inl e \<longrightarrow> simulated_for e)
          \<and> (castVote_fn env b party = Inr () \<longrightarrow>
              (account cl = None \<longrightarrow>
                 simulated_for (Exn ''AttributeError'' ''NoneType object has no attribute address''))
            \<and> (account cl = Some a \<longrightarrow>
                (eth_gas_price env = Inl e \<longrightarrow> simulated_for e)
              \<and> (eth_gas_price env = Inr gp \<longrightarrow>
                  (eth_get_transaction_count env a = Inl e \<longrightarrow> simulated_for e)
                \<and> (eth_get_transaction_count env a = Inr k \<longrightarrow>
                    (castVote_build_transaction env b party a
                       (min ((case castVote_estimate_gas env b party a of
                                Inl x \<Rightarrow> 200000 | Inr g \<Rightarrow> g) + 50000) 500000) gp k = Inl e
                       \<longrightarrow> simulated_for e)
                  \<and> (castVote_build_transaction env b party a
                       (min ((case castVote_estimate_gas env b party a of
                                Inl x \<Rightarrow> 200000 | Inr g \<Rightarrow> g) + 50000) 500000) gp k = Inr txn \<longrightarrow>
                      (sign_transaction env txn (client_private_key cl) = Inl e \<longrightarrow> simulated_for e)
                    \<and> (sign_transaction env txn (client_private_key cl) = Inr raw \<longrightarrow>
                        (eth_send_raw_transaction env raw = Inl e \<longrightarrow> simulated_for e)
                      \<and> (eth_send_raw_transaction env raw = Inr tx \<longrightarrow>
                          (eth_wait_for_transaction_receipt env tx = Inl e \<longrightarrow> simulated_for e))))))))))"
proof (intro conjI)
  show "\<exists>r. fst (cast_vote_on_blockchain cl env vhash party s) = Inr r"
    unfolding cast_vote_on_blockchain_def
    by (simp add: io_bind_def log_event_def) (rule try_except_returns, simp add: simulated_run)
next
  show "fst (simulated env vhash party msg s) =
       Inr \<lparr> success = True,
             result_transaction_hash =
               Some (''0x'' @ sha256_hexdigest env
                                (vhash @ party @ str_float env (clock env (ticks s)))),
             result_block_number = Some (py_int (clock env (Suc (ticks s))) mod 1000000),
             message = msg \<rparr>"
    by (simp add: simulated_run)
next
  show "contract cl \<noteq> None \<and> isl (eth_get_block_latest env) \<longrightarrow>
        fst (cast_vote_on_blockchain cl env vhash party s) =
          fst (simulated env vhash party ''Vote recorded (simulated - connection failed)'' s)"
    by (auto simp: cast_vote_on_blockchain_def cast_vote_body_def test_connection_def
          simulated_run io_defs isl_def)
next
  show "isl (isVotingActive_call env) \<longrightarrow>
        cast_vote_on_blockchain cl env vhash party s =
          cast_vote_on_blockchain cl (env\<lparr>isVotingActive_call := Inr True\<rparr>) vhash party s"
    using voting_check_absorbed by blast
next
  show "to_bytes_hexstr env vhash = Inr b \<and> isl (hasVoted_call env b) \<longrightarrow>
        cast_vote_on_blockchain cl env vhash party s =
          cast_vote_on_blockchain cl (env\<lparr>hasVoted_call := (\<lambda>x. Inr False)\<rparr>) vhash party s"
    using has_voted_check_absorbed by blast
next
  show "to_bytes_hexstr env vhash = Inr b \<and> account cl = Some a
        \<and> isl (castVote_estimate_gas env b party a) \<longrightarrow>
        cast_vote_on_blockchain cl env vhash party s =
          cast_vote_on_blockchain cl (env\<lparr>castVote_estimate_gas := (\<lambda>x y z. Inr 200000)\<rparr>)
            vhash party s"
    using gas_estimate_absorbed by blast
next
  show "contract cl \<noteq> None \<and> eth_get_block_latest env = Inr n
        \<and> fst (has_voter_voted cl env vhash s) = Inr False
        \<and> isVotingActive_call env \<noteq> Inr False \<longrightarrow>
(to_bytes_hexstr env vhash = Inl e \<longrightarrow> simulated_for e)
        \<and> (to_bytes_hexstr env vhash = Inr b \<longrightarrow>
            (castVote_fn env b party = Inl e \<longrightarrow> simulated_for e)
          \<and> (castVote_fn env b party = Inr () \<longrightarrow>
              (account cl = None \<longrightarrow>
                 simulated_for (Exn ''AttributeError'' ''NoneType object has no attribute address''))
            \<and> (account cl = Some a \<longrightarrow>
                (eth_gas_price env = Inl e \<longrightarrow> simulated_for e)
              \<and> (eth_gas_price env = Inr gp \<longrightarrow>
                  (eth_get_transaction_count env a = Inl e \<longrightarrow> simulated_for e)
                \<and> (eth_get_transaction_count env a = Inr k \<longrightarrow>
                    (castVote_build_transaction env b party a
                       (min ((case castVote_estimate_gas env b party a of
                                Inl x \<Rightarrow> 200000 | Inr g \<Rightarrow> g) + 50000) 500000) gp k = Inl e
                       \<longrightarrow> simulated_for e)
                  \<and> (castVote_build_transaction env b party a
                       (min ((case castVote_estimate_gas env b party a of
                                Inl x \<Rightarrow> 200000 | Inr g \<Rightarrow> g) + 50000) 500000) gp k = Inr txn \<longrightarrow>
                      (sign_transaction env txn (client_private_key cl) = Inl e \<longrightarrow> simulated_for e)
                    \<and> (sign_transaction env txn (client_private_key cl) = Inr raw \<longrightarrow>
                        (eth_send_raw_transaction env raw = Inl e \<longrightarrow> simulated_for e)
                      \<and> (eth_send_raw_transaction env raw = Inr tx \<longrightarrow>
                          (eth_wait_for_transaction_receipt env tx = Inl e \<longrightarrow> simulated_for e)))))))))"
  proof
    assume reach: "contract cl \<noteq> None \<and> eth_get_block_latest env = Inr n
        \<and> fst (has_voter_voted cl env vhash s) = Inr False
        \<and> isVotingActive_call env \<noteq> Inr False"
    then obtain t where run: "cast_vote_on_blockchain cl env vhash party s =
           try_except (send_vote_transaction cl env vhash party)
             (\<lambda>x. simulated env vhash party
                     (''Vote recorded (simulated due to blockchain error: '' @ exn_str x @ '')''))
             (s\<lparr>trace := trace s @ t\<rparr>)"
      using cast_reaches_transaction [of cl env n vhash s party] by blast
    have up: "simulated_for x"
      if "\<exists>s'. send_vote_transaction cl env vhash party (s\<lparr>trace := trace s @ t\<rparr>) = (Inl x, s')
                \<and> ticks s' = ticks (s\<lparr>trace := trace s @ t\<rparr>)" for x
    proof -
      from that obtain s' where "send_vote_transaction cl env vhash party
                                   (s\<lparr>trace := trace s @ t\<rparr>) = (Inl x, s')"
        and "ticks s' = ticks s"
        by auto
      then show ?thesis
        unfolding simulated_for_def
        by (simp add: run try_except_def simulated_run)
    qed
    note raises = send_vote_transaction_raises
      [where cl = cl and env = env and vhash = vhash and party = party
         and s = "s\<lparr>trace := trace s @ t\<rparr>"]
    have f1: "to_bytes_hexstr env vhash = Inl e \<Longrightarrow> simulated_for e"
      by (rule up, rule raises(1))
    have f2: "to_bytes_hexstr env vhash = Inr b \<Longrightarrow> castVote_fn env b party = Inl e
              \<Longrightarrow> simulated_for e"
      by (rule up, rule raises(2))
    have f3: "to_bytes_hexstr env vhash = Inr b \<Longrightarrow> castVote_fn env b party = Inr ()
              \<Longrightarrow> account cl = None
              \<Longrightarrow> simulated_for (Exn ''AttributeError''
                                     ''NoneType object has no attribute address'')"
      by (rule up, rule raises(3))
    have f4: "to_bytes_hexstr env vhash = Inr b \<Longrightarrow> castVote_fn env b party = Inr ()
              \<Longrightarrow> account cl = Some a \<Longrightarrow> eth_gas_price env = Inl e
              \<Longrightarrow> simulated_for e"
      by (rule up, rule raises(4))
    have f5: "to_bytes_hexstr env vhash = Inr b \<Longrightarrow> castVote_fn env b party = Inr ()
              \<Longrightarrow> account cl = Some a \<Longrightarrow> eth_gas_price env = Inr gp
              \<Longrightarrow> eth_get_transaction_count env a = Inl e \<Longrightarrow> simulated_for e"
      by (rule up, rule raises(5))
    have f6: "to_bytes_hexstr env vhash = Inr b \<Longrightarrow> castVote_fn env b party = Inr ()
              \<Longrightarrow> account cl = Some a \<Longrightarrow> eth_gas_price env = Inr gp
              \<Longrightarrow> eth_get_transaction_count env a = Inr k
              \<Longrightarrow> castVote_build_transaction env b party a
                    (min ((case castVote_estimate_gas env b party a of
                             Inl x \<Rightarrow> 200000 | Inr g \<Rightarrow> g) + 50000) 500000) gp k = Inl e
              \<Longrightarrow> simulated_for e"
      by (rule up, rule raises(6))
    have f7: "to_bytes_hexstr env vhash = Inr b \<Longrightarrow> castVote_fn env b party = Inr ()
              \<Longrightarrow> account cl = Some a \<Longrightarrow> eth_gas_price env = Inr gp
              \<Longrightarrow> eth_get_transaction_count env a = Inr k
              \<Longrightarrow> castVote_build_transaction env b party a
                    (min ((case castVote_estimate_gas env b party a of
                             Inl x \<Rightarrow> 200000 | Inr g \<Rightarrow> g) + 50000) 500000) gp k = Inr txn
              \<Longrightarrow> sign_transaction env txn (client_private_key cl) = Inl e
              \<Longrightarrow> simulated_for e"
      by (rule up, rule raises(7))
    have f8: "to_bytes_hexstr env vhash = Inr b \<Longrightarrow> castVote_fn env b party = Inr ()
              \<Longrightarrow> account cl = Some a \<Longrightarrow> eth_gas_price env = Inr gp
              \<Longrightarrow> eth_get_transaction_count env a = Inr k
              \<Longrightarrow> castVote_build_transaction env b party a
                    (min ((case castVote_estimate_gas env b party a of
                             Inl x \<Rightarrow> 200000 | Inr g \<Rightarrow> g) + 50000) 500000) gp k = Inr txn
              \<Longrightarrow> sign_transaction env txn (client_private_key cl) = Inr raw
              \<Longrightarrow> eth_send_raw_transaction env raw = Inl e
              \<Longrightarrow> simulated_for e"
      by (rule up, rule raises(8))
    have f9: "to_bytes_hexstr env vhash = Inr b \<Longrightarrow> castVote_fn env b party = Inr ()
              \<Longrightarrow> account cl = Some a \<Longrightarrow> eth_gas_price env = Inr gp
              \<Longrightarrow> eth_get_transaction_count env a = Inr k
              \<Longrightarrow> castVote_build_transaction env b party a
                    (min ((case castVote_estimate_gas env b party a of
                             Inl x \<Rightarrow> 200000 | Inr g \<Rightarrow> g) + 50000) 500000) gp k = Inr txn
              \<Longrightarrow> sign_transaction env txn (client_private_key cl) = Inr raw
              \<Longrightarrow> eth_send_raw_transaction env raw = Inr tx
              \<Longrightarrow> eth_wait_for_transaction_receipt env tx = Inl e
              \<Longrightarrow> simulated_for e"
      by (rule up, rule raises(9))
    show "(to_bytes_hexstr env vhash = Inl e \<longrightarrow> simulated_for e)
        \<and> (to_bytes_hexstr env vhash = Inr b \<longrightarrow>
            (castVote_fn env b party = Inl e \<longrightarrow> simulated_for e)
          \<and> (castVote_fn env b party = Inr () \<longrightarrow>
              (account cl = None \<longrightarrow>
                 simulated_for (Exn ''AttributeError'' ''NoneType object has no attribute address''))
            \<and> (account cl = Some a \<longrightarrow>
                (eth_gas_price env = Inl e \<longrightarrow> simulated_for e)
              \<and> (eth_gas_price env = Inr gp \<longrightarrow>
                  (eth_get_transaction_count env a = Inl e \<longrightarrow> simulated_for e)
                \<and> (eth_get_transaction_count env a = Inr k \<longrightarrow>
                    (castVote_build_transaction env b party a
                       (min ((case castVote_estimate_gas env b party a of
                                Inl x \<Rightarrow> 200000 | Inr g \<Rightarrow> g) + 50000) 500000) gp k = Inl e
                       \<longrightarrow> simulated_for e)
                  \<and> (castVote_build_transaction env b party a
                       (min ((case castVote_estimate_gas env b party a of
                                Inl x \<Rightarrow> 200000 | Inr g \<Rightarrow> g) + 50000) 500000) gp k = Inr txn \<longrightarrow>
                      (sign_transaction env txn (client_private_key cl) = Inl e \<longrightarrow> simulated_for e)
                    \<and> (sign_transaction env txn (client_private_key cl) = Inr raw \<longrightarrow>
                        (eth_send_raw_transaction env raw = Inl e \<longrightarrow> simulated_for e)
                      \<and> (eth_send_raw_transaction env raw = Inr tx \<longrightarrow>
                          (eth_wait_for_transaction_receipt env tx = Inl e \<longrightarrow> simulated_for e)))))))))"
      by (intro conjI impI)
         (erule f1, erule (1) f2, erule (2) f3, erule (3) f4, erule (4) f5, erule (5) f6,
          erule (6) f7, erule (7) f8, erule (8) f9)
  qed
qed

theorem cast_vote_degrades_to_simulated_witness:
  "fst (cast_vote_on_blockchain client_up
          (ledger_up\<lparr>eth_get_block_latest :=
                          Inl (Exn ''ConnectionError'' ''refused'')\<rparr>)
          ''0xab'' ''P1'' (serving election_db 100))
     = Inr \<lparr> success = True, result_transaction_hash = Some ''0xdigest:0xabP1t'',
             result_block_number = Some 1,
             message = ''Vote recorded (simulated - connection failed)'' \<rparr>
   \<and> fst (cast_vote_on_blockchain client_up
          (ledger_up\<lparr>to_bytes_hexstr :=
                          (\<lambda>h. Inl (Exn ''ValueError'' ''bad hex''))\<rparr>)
          ''0xab'' ''P1'' (serving election_db 100))
     = Inr \<lparr> success = True, result_transaction_hash = Some ''0xdigest:0xabP1t'',
             result_block_number = Some 1,
             message = ''Vote recorded (simulated due to blockchain error: bad hex)'' \<rparr>
   \<and> fst (cast_vote_on_blockchain client_up
          (ledger_up\<lparr>castVote_fn :=
                          (\<lambda>b p. Inl (Exn ''TypeError'' ''bad arguments''))\<rparr>)
          ''0xab'' ''P1'' (serving election_db 100))
     = Inr \<lparr> success = True, result_transaction_hash = Some ''0xdigest:0xabP1t'',
             result_block_number = Some 1,
             message = ''Vote recorded (simulated due to blockchain error: bad arguments)'' \<rparr>
   \<and> fst (cast_vote_on_blockchain (client_up\<lparr>account := None\<rparr>)
          ledger_up
          ''0xab'' ''P1'' (serving election_db 100))
     = Inr \<lparr> success = True, result_transaction_hash = Some ''0xdigest:0xabP1t'',
             result_block_number = Some 1,
             message = ''Vote recorded (simulated due to blockchain error: NoneType object has no attribute address)'' \<rparr>
   \<and> fst (cast_vote_on_blockchain client_up
          (ledger_up\<lparr>eth_gas_price := Inl (Exn ''ConnectionError'' ''timed out'')\<rparr>)
          ''0xab'' ''P1'' (serving election_db 100))
     = Inr \<lparr> success = True, result_transaction_hash = Some ''0xdigest:0xabP1t'',
             result_block_number = Some 1,
             message = ''Vote recorded (simulated due to blockchain error: timed out)'' \<rparr>
   \<and> fst (cast_vote_on_blockchain client_up
          (ledger_up\<lparr>eth_get_transaction_count :=
                          (\<lambda>a. Inl (Exn ''ConnectionError'' ''reset''))\<rparr>)
          ''0xab'' ''P1'' (serving election_db 100))
     = Inr \<lparr> success = True, result_transaction_hash = Some ''0xdigest:0xabP1t'',
             result_block_number = Some 1,
             message = ''Vote recorded (simulated due to blockchain error: reset)'' \<rparr>
   \<and> fst (cast_vote_on_blockchain client_up
          (ledger_up\<lparr>castVote_build_transaction :=
                          (\<lambda>b p a g gp n. Inl (Exn ''ValueError'' ''bad field''))\<rparr>)
          ''0xab'' ''P1'' (serving election_db 100))
     = Inr \<lparr> success = True, result_transaction_hash = Some ''0xdigest:0xabP1t'',
             result_block_number = Some 1,
             message = ''Vote recorded (simulated due to blockchain error: bad field)'' \<rparr>
   \<and> fst (cast_vote_on_blockchain client_up
          (ledger_up\<lparr>sign_transaction :=
                          (\<lambda>t k. Inl (Exn ''ValueError'' ''bad key''))\<rparr>)
          ''0xab'' ''P1'' (serving election_db 100))
     = Inr \<lparr> success = True, result_transaction_hash = Some ''0xdigest:0xabP1t'',
             result_block_number = Some 1,
             message = ''Vote recorded (simulated due to blockchain error: bad key)'' \<rparr>
   \<and> fst (cast_vote_on_blockchain client_up
          (ledger_up\<lparr>eth_send_raw_transaction :=
                          (\<lambda>raw. Inl (Exn ''ValueError'' ''nonce too low''))\<rparr>)
          ''0xab'' ''P1'' (serving election_db 100))
     = Inr \<lparr> success = True, result_transaction_hash = Some ''0xdigest:0xabP1t'',
             result_block_number = Some 1,
             message = ''Vote recorded (simulated due to blockchain error: nonce too low)'' \<rparr>
   \<and> fst (cast_vote_on_blockchain client_up
          (ledger_up\<lparr>eth_wait_for_transaction_receipt :=
                          (\<lambda>h. Inl (Exn ''TimeExhausted'' ''not mined''))\<rparr>)
          ''0xab'' ''P1'' (serving election_db 100))
     = Inr \<lparr> success = True, result_transaction_hash = Some ''0xdigest:0xabP1t'',
             result_block_number = Some 1,
             message = ''Vote recorded (simulated due to blockchain error: not mined)'' \<rparr>
   \<and> cast_vote_on_blockchain client_up
          (ledger_up\<lparr>isVotingActive_call :=
                          Inl (Exn ''ConnectionError'' ''timed out'')\<rparr>)
          ''0xab'' ''P1'' (serving election_db 100)
     = cast_vote_on_blockchain client_up
          ledger_up
          ''0xab'' ''P1'' (serving election_db 100)
   \<and> cast_vote_on_blockchain client_up
          (ledger_up\<lparr>hasVoted_call :=
                          (\<lambda>b. Inl (Exn ''ConnectionError'' ''timed out''))\<rparr>)
          ''0xab'' ''P1'' (serving election_db 100)
     = cast_vote_on_blockchain client_up
          ledger_up
          ''0xab'' ''P1'' (serving election_db 100)
   \<and> cast_vote_on_blockchain client_up
          (ledger_up\<lparr>castVote_estimate_gas :=
                          (\<lambda>b p a. Inl (Exn ''ContractLogicError'' ''execution reverted''))\<rparr>)
          ''0xab'' ''P1'' (serving election_db 100)
     = cast_vote_on_blockchain client_up
          (ledger_up\<lparr>castVote_estimate_gas := (\<lambda>b p a. Inr 200000)\<rparr>)
          ''0xab'' ''P1'' (serving election_db 100)"
  using
    cast_vote_degrades_to_simulated
      [where cl = client_up and vhash = "''0xab''" and party = "''P1''"
         and s = "serving election_db 100"
         and env = "ledger_up\<lparr>eth_get_block_latest :=
                          Inl (Exn ''ConnectionError'' ''refused'')\<rparr>"]
    cast_vote_degrades_to_simulated
      [where cl = client_up and vhash = "''0xab''" and party = "''P1''"
         and s = "serving election_db 100"
         and env = "ledger_up\<lparr>to_bytes_hexstr :=
                          (\<lambda>h. Inl (Exn ''ValueError'' ''bad hex''))\<rparr>"
         and msg = "''Vote recorded (simulated due to blockchain error: bad hex)''"
         and e = "Exn ''ValueError'' ''bad hex''"
         and n = 7 and b = "''0xab''" and a = "''0xA''" and gp = 20 and k = 0
         and txn = "''tx:P1''" and raw = "''signed:tx:P1''" and tx = "''0x77''"]
    cast_vote_degrades_to_simulated
      [where cl = client_up and vhash = "''0xab''" and party = "''P1''"
         and s = "serving election_db 100"
         and env = "ledger_up\<lparr>castVote_fn :=
                          (\<lambda>b p. Inl (Exn ''TypeError'' ''bad arguments''))\<rparr>"
         and msg = "''Vote recorded (simulated due to blockchain error: bad arguments)''"
         and e = "Exn ''TypeError'' ''bad arguments''"
         and n = 7 and b = "''0xab''" and a = "''0xA''" and gp = 20 and k = 0
         and txn = "''tx:P1''" and raw = "''signed:tx:P1''" and tx = "''0x77''"]
    cast_vote_degrades_to_simulated
      [where cl = "client_up\<lparr>account :=
                          None\<rparr>" and vhash = "''0xab''" and party = "''P1''"
         and s = "serving election_db 100"
         and env = "ledger_up"
         and msg = "''Vote recorded (simulated due to blockchain error: NoneType object has no attribute address)''"
         and n = 7 and b = "''0xab''" and a = "''0xA''" and gp = 20 and k = 0
         and txn = "''tx:P1''" and raw = "''signed:tx:P1''" and tx = "''0x77''"]
    cast_vote_degrades_to_simulated
      [where cl = client_up and vhash = "''0xab''" and party = "''P1''"
         and s = "serving election_db 100"
         and env = "ledger_up\<lparr>eth_gas_price :=
                          Inl (Exn ''ConnectionError'' ''timed out'')\<rparr>"
         and msg = "''Vote recorded (simulated due to blockchain error: timed out)''"
         and e = "Exn ''ConnectionError'' ''timed out''"
         and n = 7 and b = "''0xab''" and a = "''0xA''" and gp = 20 and k = 0
         and txn = "''tx:P1''" and raw = "''signed:tx:P1''" and tx = "''0x77''"]
    cast_vote_degrades_to_simulated
      [where cl = client_up and vhash = "''0xab''" and party = "''P1''"
         and s = "serving election_db 100"
         and env = "ledger_up\<lparr>eth_get_transaction_count :=
                          (\<lambda>a. Inl (Exn ''ConnectionError'' ''reset''))\<rparr>"
         and msg = "''Vote recorded (simulated due to blockchain error: reset)''"
         and e = "Exn ''ConnectionError'' ''reset''"
         and n = 7 and b = "''0xab''" and a = "''0xA''" and gp = 20 and k = 0
         and txn = "''tx:P1''" and raw = "''signed:tx:P1''" and tx = "''0x77''"]
    cast_vote_degrades_to_simulated
      [where cl = client_up and vhash = "''0xab''" and party = "''P1''"
         and s = "serving election_db 100"
         and env = "ledger_up\<lparr>castVote_build_transaction :=
                          (\<lambda>b p a g gp n. Inl (Exn ''ValueError'' ''bad field''))\<rparr>"
         and msg = "''Vote recorded (simulated due to blockchain error: bad field)''"
         and e = "Exn ''ValueError'' ''bad field''"
         and n = 7 and b = "''0xab''" and a = "''0xA''" and gp = 20 and k = 0
         and txn = "''tx:P1''" and raw = "''signed:tx:P1''" and tx = "''0x77''"]
    cast_vote_degrades_to_simulated
      [where cl = client_up and vhash = "''0xab''" and party = "''P1''"
         and s = "serving election_db 100"
         and env = "ledger_up\<lparr>sign_transaction :=
                          (\<lambda>t k. Inl (Exn ''ValueError'' ''bad key''))\<rparr>"
         and msg = "''Vote recorded (simulated due to blockchain error: bad key)''"
         and e = "Exn ''ValueError'' ''bad key''"
         and n = 7 and b = "''0xab''" and a = "''0xA''" and gp = 20 and k = 0
         and txn = "''tx:P1''" and raw = "''signed:tx:P1''" and tx = "''0x77''"]
    cast_vote_degrades_to_simulated
      [where cl = client_up and vhash = "''0xab''" and party = "''P1''"
         and s = "serving election_db 100"
         and env = "ledger_up\<lparr>eth_send_raw_transaction :=
                          (\<lambda>raw. Inl (Exn ''ValueError'' ''nonce too low''))\<rparr>"
         and msg = "''Vote recorded (simulated due to blockchain error: nonce too low)''"
         and e = "Exn ''ValueError'' ''nonce too low''"
         and n = 7 and b = "''0xab''" and a = "''0xA''" and gp = 20 and k = 0
         and txn = "''tx:P1''" and raw = "''signed:tx:P1''" and tx = "''0x77''"]
    cast_vote_degrades_to_simulated
      [where cl = client_up and vhash = "''0xab''" and party = "''P1''"
         and s = "serving election_db 100"
         and env = "ledger_up\<lparr>eth_wait_for_transaction_receipt :=
                          (\<lambda>h. Inl (Exn ''TimeExhausted'' ''not mined''))\<rparr>"
         and msg = "''Vote recorded (simulated due to blockchain error: not mined)''"
         and e = "Exn ''TimeExhausted'' ''not mined''"
         and n = 7 and b = "''0xab''" and a = "''0xA''" and gp = 20 and k = 0
         and txn = "''tx:P1''" and raw = "''signed:tx:P1''" and tx = "''0x77''"]
    cast_vote_degrades_to_simulated
      [where cl = client_up and vhash = "''0xab''" and party = "''P1''"
         and s = "serving election_db 100"
         and env = "ledger_up\<lparr>isVotingActive_call :=
                          Inl (Exn ''ConnectionError'' ''timed out'')\<rparr>"
         and b = "''0xab''" and a = "''0xA''"]
    cast_vote_degrades_to_simulated
      [where cl = client_up and vhash = "''0xab''" and party = "''P1''"
         and s = "serving election_db 100"
         and env = "ledger_up\<lparr>hasVoted_call :=
                          (\<lambda>b. Inl (Exn ''ConnectionError'' ''timed out''))\<rparr>"
         and b = "''0xab''" and a = "''0xA''"]
    cast_vote_degrades_to_simulated
      [where cl = client_up and vhash = "''0xab''" and party = "''P1''"
         and s = "serving election_db 100"
         and env = "ledger_up\<lparr>castVote_estimate_gas :=
                          (\<lambda>b p a. Inl (Exn ''ContractLogicError'' ''execution reverted''))\<rparr>"
         and b = "''0xab''" and a = "''0xA''"]
  by (simp add: ledger_up_def client_up_def serving_def py_int_def exn_str_def
        has_voter_voted_def io_defs)

text \<open>C2 as the specification states it fails: here the gas estimate raises and the vote is
  confirmed with the ledger's own transaction hash; and here \<open>hasVoted\<close> raises and the
  vote is rejected because the contract reports that voting is not active.\<close>

theorem rpc_failure_not_simulated_counterexample:
  "fst (cast_vote_on_blockchain client_up
          (ledger_up\<lparr>castVote_estimate_gas :=
                       (\<lambda>b p a. Inl (Exn ''ContractLogicError'' ''execution reverted''))\<rparr>)
          ''0xab'' ''P1'' (serving election_db 100))
     = Inr \<lparr> success = True, result_transaction_hash = Some ''0x77'',
             result_block_number = Some 7,
             message = ''Vote successfully recorded on blockchain'' \<rparr>
   \<and> fst (cast_vote_on_blockchain client_up
            (ledger_up\<lparr>hasVoted_call := (\<lambda>b. Inl (Exn ''ConnectionError'' ''timed out'')),
                        isVotingActive_call := Inr False\<rparr>)
            ''0xab'' ''P1'' (serving election_db 100))
     = Inr \<lparr> success = False, result_transaction_hash = None, result_block_number = None,
             message = ''Voting is not currently active on the blockchain'' \<rparr>"
  by (simp add: cast_vote_on_blockchain_def cast_vote_body_def
        send_vote_transaction_def estimate_gas_or_default_def voting_reported_inactive_def test_connection_def
        has_voter_voted_def account_address_def record_blockchain_transaction_def
        BlockchainNetwork_get_or_create_default_def db_read_def db_write_def orm_guard_def
        BlockchainTransaction_insert_def rejected_def io_defs ledger_up_def client_up_def
        serving_def election_db_def receipt_ok_def Let_def)

section \<open>Verification: the storage constraints\<close>

lemma audit_transaction_pks: "transaction_pk ` audit_transaction st ` A = A"
  by (simp add: image_image audit_transaction_def)

text \<open>
  C1 on the code: the table holds Alice's vote for party 1; the insert of a second vote of
  Alice, for party 2, passes every constraint of \<open>Vote\<close>, and the table then holds two
  rows with her as voter. Likewise two \<open>VoteRecord\<close> rows with one voter hash are accepted
  as long as their transactions differ.
\<close>

theorem second_vote_for_other_party_accepted:
  "Vote_insert (election_db\<lparr>votes := [alice_vote]\<rparr>)
      (alice_vote\<lparr>vote_pk := 11, political_party := 2, blockchain_hash := Some ''0xbb''\<rparr>)
     = Inr (election_db\<lparr>votes :=
              [alice_vote,
               alice_vote\<lparr>vote_pk := 11, political_party := 2, blockchain_hash := Some ''0xbb''\<rparr>]\<rparr>)
   \<and> length (filter (\<lambda>w. voter w = voter_pk alice)
        [alice_vote,
         alice_vote\<lparr>vote_pk := 11, political_party := 2, blockchain_hash := Some ''0xbb''\<rparr>]) = 2
   \<and> VoteRecord_insert
        ((audit_db ''confirmed'')\<lparr>vote_records := [audit_record ''confirmed'' 0]\<rparr>)
        (audit_record ''confirmed'' 1)
     = Inr ((audit_db ''confirmed'')
              \<lparr>vote_records := [audit_record ''confirmed'' 0, audit_record ''confirmed'' 1]\<rparr>)
   \<and> voter_hash (audit_record ''confirmed'' 0) = voter_hash (audit_record ''confirmed'' 1)"
  by (simp add: Vote_insert_def VoteRecord_insert_def election_db_def alice_vote_def
        alice_def audit_db_def audit_record_def audit_transaction_pks)
     (simp add: audit_transaction_def)

section \<open>Verification: the audit\<close>

lemma matching_event_uuid: "\<not> matching_event events vhash (PartyUUID u)"
  by (induction events) (auto simp: str_eq_party_def)

text \<open>For the party column of a stored record the comparison with an event never holds:
  the verification answers \<open>False\<close>, whatever the ledger returns.\<close>

lemma verify_stored_record:
  "verify_vote_on_blockchain cl env vhash (PartyUUID u) tx s =
     (Inr False, s\<lparr>trace := trace s @ [GetTransactionReceipt tx]\<rparr>)"
  by (auto simp: verify_vote_on_blockchain_def matching_event_uuid io_defs split: sum.splits)

lemma audit_loop_run:
  "audit_loop cl env rs v f s =
     (Inr (v, f + length (filter (\<lambda>r. blockchain_transaction r \<noteq> None) rs)),
      s\<lparr>trace := trace s @
           map (\<lambda>r. GetTransactionReceipt (transaction_hash (the (blockchain_transaction r))))
               (filter (\<lambda>r. blockchain_transaction r \<noteq> None) rs)\<rparr>)"
proof (induction rs arbitrary: v f s)
  case Nil
  show ?case by (simp add: io_return_def)
next
  case (Cons r rs)
  show ?case
  proof (cases "blockchain_transaction r")
    case None
    then show ?thesis using Cons.IH by simp
  next
    case (Some t)
    then show ?thesis
      by (simp add: Cons.IH verify_stored_record io_bind_def)
  qed
qed

lemma audit_run:
  assumes "\<not> (in_atomic_block s \<and> needs_rollback s)"
  shows "fst (audit_vote_integrity cl env s) =
           Inr \<lparr> total_records = length (vote_records (db s)), verified_count = 0,
                 failed_count =
                   length (filter (\<lambda>r. blockchain_transaction r \<noteq> None) (vote_records (db s))),
                 integrity_percentage = (if vote_records (db s) = [] then 100 else 0),
                 audit_status = (if vote_records (db s) = [] then ''success'' else ''warning''),
                 audit_timestamp = Some (py_int (clock env (ticks s))),
                 audit_message = None \<rparr>"
  using assms
  by (auto simp: audit_vote_integrity_def audit_loop_run io_defs db_read_def orm_guard_def Let_def)

text \<open>
  C6. A run of the audit leaves the database as it found it, for every table content and
  every ledger: every stored vote record has the same fields after the run as before. The
  one place of the loop that would write, \<open>record.save()\<close>, comes after the assignment to
  the read-only property and is never reached; nor is the branch it stands in, as the
  verification of a stored record never succeeds.
\<close>

theorem audit_keeps_vote_records:
  "db (snd (audit_vote_integrity cl env s)) = db s
   \<and> vote_records (db (snd (audit_vote_integrity cl env s))) = vote_records (db s)"
  by (auto simp: audit_vote_integrity_def audit_loop_run io_defs db_read_def orm_guard_def Let_def)

section \<open>Verification: the vote submission\<close>

subsection \<open>The log only grows\<close>

lemma extends_return [intro!]: "trace_extends (io_return x)"
  by (simp add: trace_extends_def io_return_def)

lemma extends_raise [intro!]: "trace_extends (io_raise e)"
  by (simp add: trace_extends_def io_raise_def)

lemma extends_rpc [intro!]: "trace_extends (rpc ev outcome)"
  by (simp add: trace_extends_def rpc_def)

lemma extends_lib [intro!]: "trace_extends (lib outcome)"
  by (simp add: trace_extends_def lib_def)

lemma extends_log [intro!]: "trace_extends (log_event ev)"
  by (simp add: trace_extends_def log_event_def)

lemma extends_time [intro!]: "trace_extends (time_time env)"
  by (simp add: trace_extends_def time_time_def)

lemma extends_fresh [intro!]: "trace_extends fresh_pk"
  by (simp add: trace_extends_def fresh_pk_def)

lemma extends_bind [intro!]:
  assumes "trace_extends m" "\<And>v. trace_extends (f v)"
  shows "trace_extends (io_bind m f)"
  unfolding trace_extends_def
proof
  fix s
  obtain r s' where ms: "m s = (r, s')" by (cases "m s")
  from assms(1) ms obtain t where t: "trace s' = trace s @ t"
    unfolding trace_extends_def by (metis snd_conv)
  show "\<exists>t. trace (snd (io_bind m f s)) = trace s @ t"
  proof (cases r)
    case (Inl e)
    with ms t show ?thesis by (simp add: io_bind_def)
  next
    case (Inr v)
    from assms(2) [of v] obtain t' where "trace (snd (f v s')) = trace s' @ t'"
      unfolding trace_extends_def by blast
    with Inr ms t show ?thesis by (simp add: io_bind_def)
  qed
qed

lemma extends_try [intro!]:
  assumes "trace_extends m" "\<And>e. trace_extends (h e)"
  shows "trace_extends (try_except m h)"
  unfolding trace_extends_def
proof
  fix s
  obtain r s' where ms: "m s = (r, s')" by (cases "m s")
  from assms(1) ms obtain t where t: "trace s' = trace s @ t"
    unfolding trace_extends_def by (metis snd_conv)
  show "\<exists>t. trace (snd (try_except m h s)) = trace s @ t"
  proof (cases r)
    case (Inr v)
    with ms t show ?thesis by (simp add: try_except_def)
  next
    case (Inl e)
    from assms(2) [of e] obtain t' where "trace (snd (h e s')) = trace s' @ t'"
      unfolding trace_extends_def by blast
    with Inl ms t show ?thesis by (simp add: try_except_def)
  qed
qed

lemma extends_guard [intro!]: "trace_extends orm_guard"
  by (simp add: trace_extends_def orm_guard_def)

lemma extends_db_read [intro!]: "trace_extends (db_read f)"
  by (auto simp: trace_extends_def db_read_def io_bind_def orm_guard_def)

lemma extends_db_write [intro!]: "trace_extends (db_write table f)"
  by (auto simp: trace_extends_def db_write_def io_bind_def orm_guard_def split: sum.splits)

lemma extends_atomic [intro!]:
  assumes "trace_extends m"
  shows "trace_extends (atomic m)"
  unfolding trace_extends_def
proof
  fix s
  from assms have
    "\<exists>t. trace (snd (m (s\<lparr>in_atomic_block := True, needs_rollback := False\<rparr>)))
           = trace (s\<lparr>in_atomic_block := True, needs_rollback := False\<rparr>) @ t"
    unfolding trace_extends_def by (rule spec)
  then obtain t where
    "trace (snd (m (s\<lparr>in_atomic_block := True, needs_rollback := False\<rparr>))) = trace s @ t"
    by auto
  then show "\<exists>t. trace (snd (atomic m s)) = trace s @ t"
    by (auto simp: atomic_def split: prod.splits sum.splits)
qed

lemma extends_if [intro!]:
  "(b \<Longrightarrow> trace_extends m) \<Longrightarrow> (\<not> b \<Longrightarrow> trace_extends n) \<Longrightarrow> trace_extends (if b then m else n)"
  by simp

lemma extends_option [intro!]:
  "(x = None \<Longrightarrow> trace_extends m) \<Longrightarrow> (\<And>y. x = Some y \<Longrightarrow> trace_extends (f y))
     \<Longrightarrow> trace_extends (case x of None \<Rightarrow> m | Some y \<Rightarrow> f y)"
  by (cases x) simp_all

lemma extends_simulated [intro!]: "trace_extends (simulated env vhash party msg)"
  unfolding simulated_def by (intro extends_bind extends_time extends_return)

lemma extends_account [intro!]: "trace_extends (account_address cl)"
  unfolding account_address_def by (cases "account cl") auto

lemma extends_test_connection [intro!]: "trace_extends (test_connection env)"
  unfolding test_connection_def by auto

lemma extends_has_voter_voted [intro!]: "trace_extends (has_voter_voted cl env vhash)"
  unfolding has_voter_voted_def by auto

lemma extends_verify [intro!]: "trace_extends (verify_vote_on_blockchain cl env vhash party tx)"
  unfolding verify_vote_on_blockchain_def by auto

lemma extends_network [intro!]: "trace_extends (BlockchainNetwork_get_or_create_default cl cid)"
  unfolding BlockchainNetwork_get_or_create_default_def
  by (intro extends_bind extends_db_read) (auto split: list.splits)

lemma extends_record [intro!]:
  "trace_extends (record_blockchain_transaction cl env tx tp rc md)"
  unfolding record_blockchain_transaction_def Let_def by auto

lemma extends_body [intro!]: "trace_extends (cast_vote_body cl env vhash party)"
  unfolding cast_vote_body_def
        send_vote_transaction_def estimate_gas_or_default_def voting_reported_inactive_def by auto

lemma extends_create_record [intro!]:
  "trace_extends (create_vote_record cl env vhash party tx)"
  unfolding create_vote_record_def VoteRecord_objects_create_def Let_def by auto

lemma cast_vote_returns:
  "\<exists>r s1. cast_vote_on_blockchain cl env vhash party s = (Inr r, s1)"
proof -
  have "\<exists>r. fst (cast_vote_on_blockchain cl env vhash party s) = Inr r"
    unfolding cast_vote_on_blockchain_def
    by (simp add: io_bind_def log_event_def) (rule try_except_returns, simp add: simulated_run)
  then show ?thesis
    by (cases "cast_vote_on_blockchain cl env vhash party s") auto
qed

lemma cast_vote_logs_submit_first:
  "\<exists>t. trace (snd (cast_vote_on_blockchain cl env vhash party s))
         = trace s @ LedgerSubmit vhash party # t"
proof -
  have "trace_extends (try_except (cast_vote_body cl env vhash party)
          (\<lambda>e. simulated env vhash party
                  (''Vote recorded (simulated due to blockchain error: '' @ exn_str e @ '')'')))"
    by auto
  then obtain t where
    "trace (snd (try_except (cast_vote_body cl env vhash party)
          (\<lambda>e. simulated env vhash party
                  (''Vote recorded (simulated due to blockchain error: '' @ exn_str e @ '')''))
          (s\<lparr>trace := trace s @ [LedgerSubmit vhash party]\<rparr>)))
       = trace (s\<lparr>trace := trace s @ [LedgerSubmit vhash party]\<rparr>) @ t"
    unfolding trace_extends_def by blast
  then show ?thesis
    by (simp add: cast_vote_on_blockchain_def io_bind_def log_event_def)
qed

lemma cast_vote_body_unsuccessful:
  assumes "cast_vote_body cl env vhash party s = (Inr r, s')" "\<not> success r"
  shows "writes_nothing s s'"
  using assms
  unfolding cast_vote_body_def
        send_vote_transaction_def estimate_gas_or_default_def voting_reported_inactive_def test_connection_def has_voter_voted_def account_address_def
  by (auto simp: io_defs simulated_run rejected_def writes_nothing_def Let_def
           split: if_splits sum.splits option.splits prod.splits)

lemma cast_vote_unsuccessful:
  assumes "cast_vote_on_blockchain cl env vhash party s = (Inr r, s')" "\<not> success r"
  shows "db s' = db s \<and> in_atomic_block s' = in_atomic_block s
         \<and> needs_rollback s' = needs_rollback s \<and> next_pk s' = next_pk s
         \<and> (\<exists>t. trace s' = trace s @ LedgerSubmit vhash party # t
                \<and> (\<forall>table. DbWrite table \<notin> set t))"
proof -
  let ?s0 = "s\<lparr>trace := trace s @ [LedgerSubmit vhash party]\<rparr>"
  obtain b sb where body: "cast_vote_body cl env vhash party ?s0 = (b, sb)"
    by (cases "cast_vote_body cl env vhash party ?s0")
  show ?thesis
  proof (cases b)
    case (Inl e)
    with body assms show ?thesis
      by (auto simp: cast_vote_on_blockchain_def io_bind_def log_event_def try_except_def
            simulated_run)
  next
    case (Inr r')
    with body assms have "r' = r" "sb = s'"
      by (simp_all add: cast_vote_on_blockchain_def io_bind_def log_event_def try_except_def)
    with body Inr assms(2) have "writes_nothing ?s0 s'"
      using cast_vote_body_unsuccessful by blast
    then show ?thesis
      by (auto simp: writes_nothing_def)
  qed
qed

lemma commit_vote_rejected:
  assumes "cast_vote_on_blockchain cl env vhash (party_id party)
             (s\<lparr>in_atomic_block := True, needs_rollback := False\<rparr>) = (Inr r, s1)"
    and "\<not> success r"
  shows "atomic (commit_vote cl env rq v party vhash) s =
           (Inr (JsonFailure (''Blockchain vote failed: '' @ message r), session rq),
            s1\<lparr>in_atomic_block := False, needs_rollback := False\<rparr>)
         \<and> db s1 = db s
         \<and> (\<exists>t. trace s1 = trace s @ LedgerSubmit vhash (party_id party) # t
                \<and> (\<forall>table. DbWrite table \<notin> set t))"
proof -
  from cast_vote_unsuccessful [OF assms]
  have frame: "db s1 = db s" "needs_rollback s1 = False"
    "\<exists>t. trace s1 = trace s @ LedgerSubmit vhash (party_id party) # t
         \<and> (\<forall>table. DbWrite table \<notin> set t)"
    by simp_all
  have "atomic (commit_vote cl env rq v party vhash) s =
           (Inr (JsonFailure (''Blockchain vote failed: '' @ message r), session rq),
            s1\<lparr>in_atomic_block := False, needs_rollback := False\<rparr>)"
    using assms frame(2) by (simp add: atomic_def commit_vote_def io_bind_def io_return_def)
  with frame show ?thesis by simp
qed

lemma extends_commit [intro!]: "trace_extends (commit_vote cl env rq v party vhash)"
proof -
  have "trace_extends (cast_vote_on_blockchain cl env vhash (party_id party))"
    unfolding cast_vote_on_blockchain_def by auto
  then show ?thesis
    unfolding commit_vote_def by auto
qed

lemma commit_vote_logs_submit_first:
  "\<exists>t. trace (snd (atomic (commit_vote cl env rq v party vhash) s))
         = trace s @ LedgerSubmit vhash (party_id party) # t"
proof -
  let ?s0 = "s\<lparr>in_atomic_block := True, needs_rollback := False\<rparr>"
  obtain r s1 where c: "cast_vote_on_blockchain cl env vhash (party_id party) ?s0 = (Inr r, s1)"
    using cast_vote_returns by blast
  from cast_vote_logs_submit_first [of cl env vhash "party_id party" ?s0] c
  obtain t where t: "trace s1 = trace s @ LedgerSubmit vhash (party_id party) # t"
    by auto
  define k where "k = (\<lambda>blockchain_result :: cast_result.
     if \<not> success blockchain_result then
       io_return (JsonFailure (''Blockchain vote failed: '' @ message blockchain_result), session rq)
     else
       io_bind fresh_pk (\<lambda>pk.
       io_bind (time_time env) (\<lambda>created.
       io_bind (db_write ''Vote'' (\<lambda>d. Vote_insert d
                  \<lparr> vote_pk = pk, voter = voter_pk v, political_party = party_pk party,
                    blockchain_hash = result_transaction_hash blockchain_result,
                    blockchain_block_number = result_block_number blockchain_result,
                    voted_at = created, is_valid = True, ip_address = get_client_ip rq \<rparr>)) (\<lambda>_.
       io_bind (time_time env) (\<lambda>voted_at_attr.
       io_bind (db_write ''Voter'' (\<lambda>d. Inr (Voter_update d (v\<lparr>has_voted := True\<rparr>)))) (\<lambda>_.
       io_bind (create_vote_record cl env vhash (party_id party)
                  (case result_transaction_hash blockchain_result of None \<Rightarrow> [] | Some h \<Rightarrow> h))
         (\<lambda>vote_record.
       io_return (JsonSuccess pk (result_transaction_hash blockchain_result) created (party_name party),
                  (session rq)(''verified_voter_email'' := None,
                               ''verification_timestamp'' := None)))))))))"
  have "trace_extends (k r)"
    unfolding k_def by auto
  then obtain t' where t': "trace (snd (k r s1)) = trace s1 @ t'"
    unfolding trace_extends_def by blast
  have "commit_vote cl env rq v party vhash ?s0 = k r s1"
    using c by (simp add: commit_vote_def k_def io_bind_def)
  then have "trace (snd (commit_vote cl env rq v party vhash ?s0))
               = trace s @ LedgerSubmit vhash (party_id party) # (t @ t')"
    using t t' by simp
  then show ?thesis
    by (auto simp: atomic_def split: prod.splits sum.splits)
qed

subsection \<open>No table write before the ledger submit\<close>

lemma silent_return [intro!]: "silent (io_return x)"
  by (simp add: silent_def io_return_def)

lemma silent_raise [intro!]: "silent (io_raise e)"
  by (simp add: silent_def io_raise_def)

lemma silent_lib [intro!]: "silent (lib outcome)"
  by (simp add: silent_def lib_def)

lemma silent_time [intro!]: "silent (time_time env)"
  by (simp add: silent_def time_time_def)

lemma silent_rpc [intro!]: "\<not> is_write ev \<Longrightarrow> \<not> is_submit ev \<Longrightarrow> silent (rpc ev outcome)"
  by (simp add: silent_def rpc_def)

lemma silent_db_read [intro!]: "silent (db_read f)"
  by (auto simp: silent_def db_read_def io_bind_def orm_guard_def)

lemma silent_bind [intro!]:
  assumes "silent m" "\<And>v. silent (f v)"
  shows "silent (io_bind m f)"
  unfolding silent_def
proof
  fix s
  obtain r s' where ms: "m s = (r, s')" by (cases "m s")
  from assms(1) have "\<exists>t. trace (snd (m s)) = trace s @ t \<and> \<not> list_ex is_write t
                         \<and> \<not> list_ex is_submit t"
    unfolding silent_def by (rule spec)
  with ms obtain t where t: "trace s' = trace s @ t" "\<not> list_ex is_write t"
    "\<not> list_ex is_submit t" by auto
  show "\<exists>t. trace (snd (io_bind m f s)) = trace s @ t \<and> \<not> list_ex is_write t
             \<and> \<not> list_ex is_submit t"
  proof (cases r)
    case (Inl e)
    with ms t show ?thesis by (simp add: io_bind_def)
  next
    case (Inr v)
    from assms(2) [of v] have "\<exists>t'. trace (snd (f v s')) = trace s' @ t'
                                 \<and> \<not> list_ex is_write t' \<and> \<not> list_ex is_submit t'"
      unfolding silent_def by (rule spec)
    then obtain t' where "trace (snd (f v s')) = trace s' @ t'" "\<not> list_ex is_write t'"
      "\<not> list_ex is_submit t'" by auto
    with Inr ms t show ?thesis by (simp add: io_bind_def)
  qed
qed

lemma silent_try [intro!]:
  assumes "silent m" "\<And>e. silent (h e)"
  shows "silent (try_except m h)"
  unfolding silent_def
proof
  fix s
  obtain r s' where ms: "m s = (r, s')" by (cases "m s")
  from assms(1) have "\<exists>t. trace (snd (m s)) = trace s @ t \<and> \<not> list_ex is_write t
                         \<and> \<not> list_ex is_submit t"
    unfolding silent_def by (rule spec)
  with ms obtain t where t: "trace s' = trace s @ t" "\<not> list_ex is_write t"
    "\<not> list_ex is_submit t" by auto
  show "\<exists>t. trace (snd (try_except m h s)) = trace s @ t \<and> \<not> list_ex is_write t
             \<and> \<not> list_ex is_submit t"
  proof (cases r)
    case (Inr v)
    with ms t show ?thesis by (simp add: try_except_def)
  next
    case (Inl e)
    from assms(2) [of e] have "\<exists>t'. trace (snd (h e s')) = trace s' @ t'
                                 \<and> \<not> list_ex is_write t' \<and> \<not> list_ex is_submit t'"
      unfolding silent_def by (rule spec)
    then obtain t' where "trace (snd (h e s')) = trace s' @ t'" "\<not> list_ex is_write t'"
      "\<not> list_ex is_submit t'" by auto
    with Inl ms t show ?thesis by (simp add: try_except_def)
  qed
qed

lemma silent_objects_get [intro!]: "silent (objects_get model rows)"
  unfolding objects_get_def by (auto split: list.splits)

lemma silent_lookup [intro!]: "silent (lookup_voter_and_party voter_email pid)"
  unfolding lookup_voter_and_party_def by auto

lemma silent_has_voter_voted [intro!]: "silent (has_voter_voted cl env vhash)"
  unfolding has_voter_voted_def by auto

lemma takeWhile_no_submit:
  "\<not> list_ex is_submit t \<Longrightarrow> takeWhile (\<lambda>ev. \<not> is_submit ev) (t @ u) = t @ takeWhile (\<lambda>ev. \<not> is_submit ev) u"
  by (induction t) auto

lemma silent_then_ordered:
  "\<not> list_ex is_write t \<Longrightarrow> \<not> list_ex is_submit t \<Longrightarrow> submit_precedes_writes u
     \<Longrightarrow> submit_precedes_writes (t @ u)"
  by (simp add: submit_precedes_writes_def takeWhile_no_submit)

lemma ordered_then_silent:
  assumes "submit_precedes_writes t" "\<not> list_ex is_write u"
  shows "submit_precedes_writes (t @ u)"
proof (cases "list_ex is_submit t")
  case True
  then have "takeWhile (\<lambda>ev. \<not> is_submit ev) (t @ u) = takeWhile (\<lambda>ev. \<not> is_submit ev) t"
    by (induction t) auto
  with assms show ?thesis by (simp add: submit_precedes_writes_def)
next
  case False
  then have t: "takeWhile (\<lambda>ev. \<not> is_submit ev) t = t"
    by (induction t) auto
  from assms(1) have wt: "\<not> list_ex is_write t"
    unfolding submit_precedes_writes_def t .
  have wu: "\<not> list_ex is_write (takeWhile (\<lambda>ev. \<not> is_submit ev) u)"
    using assms(2) by (induction u) auto
  show ?thesis
    using wt wu by (simp add: submit_precedes_writes_def takeWhile_no_submit [OF False])
qed

lemma ordered_silent:
  assumes "silent m"
  shows "ordered m"
  unfolding ordered_def
proof
  fix s
  from assms have "\<exists>t. trace (snd (m s)) = trace s @ t \<and> \<not> list_ex is_write t
                      \<and> \<not> list_ex is_submit t"
    unfolding silent_def by (rule spec)
  then obtain t where "trace (snd (m s)) = trace s @ t" "\<not> list_ex is_write t"
    "\<not> list_ex is_submit t" by auto
  then show "\<exists>t. trace (snd (m s)) = trace s @ t \<and> submit_precedes_writes t"
    using silent_then_ordered [of t "[]"] by (simp add: submit_precedes_writes_def)
qed

lemma ordered_return [intro!]: "ordered (io_return x)"
  by (rule ordered_silent) auto

lemma ordered_raise [intro!]: "ordered (io_raise e)"
  by (rule ordered_silent) auto

lemma ordered_bind [intro!]:
  assumes "silent m" "\<And>v. ordered (f v)"
  shows "ordered (io_bind m f)"
  unfolding ordered_def
proof
  fix s
  obtain r s' where ms: "m s = (r, s')" by (cases "m s")
  from assms(1) have "\<exists>t. trace (snd (m s)) = trace s @ t \<and> \<not> list_ex is_write t
                         \<and> \<not> list_ex is_submit t"
    unfolding silent_def by (rule spec)
  with ms obtain t where t: "trace s' = trace s @ t" "\<not> list_ex is_write t"
    "\<not> list_ex is_submit t" by auto
  show "\<exists>t. trace (snd (io_bind m f s)) = trace s @ t \<and> submit_precedes_writes t"
  proof (cases r)
    case (Inl e)
    with ms t show ?thesis
      using silent_then_ordered [of t "[]"] by (simp add: io_bind_def submit_precedes_writes_def)
  next
    case (Inr v)
    from assms(2) [of v] have "\<exists>u. trace (snd (f v s')) = trace s' @ u \<and> submit_precedes_writes u"
      unfolding ordered_def by (rule spec)
    then obtain u where "trace (snd (f v s')) = trace s' @ u" "submit_precedes_writes u" by auto
    with Inr ms t show ?thesis
      using silent_then_ordered [of t u] by (simp add: io_bind_def)
  qed
qed

lemma ordered_try [intro!]:
  assumes "ordered m" "\<And>e. silent (h e)"
  shows "ordered (try_except m h)"
  unfolding ordered_def
proof
  fix s
  obtain r s' where ms: "m s = (r, s')" by (cases "m s")
  from assms(1) have "\<exists>t. trace (snd (m s)) = trace s @ t \<and> submit_precedes_writes t"
    unfolding ordered_def by (rule spec)
  with ms obtain t where t: "trace s' = trace s @ t" "submit_precedes_writes t" by auto
  show "\<exists>t. trace (snd (try_except m h s)) = trace s @ t \<and> submit_precedes_writes t"
  proof (cases r)
    case (Inr v)
    with ms t show ?thesis by (auto simp: try_except_def)
  next
    case (Inl e)
    from assms(2) [of e] have "\<exists>u. trace (snd (h e s')) = trace s' @ u
                                 \<and> \<not> list_ex is_write u \<and> \<not> list_ex is_submit u"
      unfolding silent_def by (rule spec)
    then obtain u where "trace (snd (h e s')) = trace s' @ u" "\<not> list_ex is_write u" by auto
    with Inl ms t show ?thesis
      using ordered_then_silent [of t u] by (simp add: try_except_def)
  qed
qed

lemma ordered_commit [intro!]: "ordered (atomic (commit_vote cl env rq v party vhash))"
  unfolding ordered_def
proof
  fix s
  from commit_vote_logs_submit_first [of cl env rq v party vhash s]
  obtain t where "trace (snd (atomic (commit_vote cl env rq v party vhash) s))
                    = trace s @ LedgerSubmit vhash (party_id party) # t" by blast
  then show "\<exists>t. trace (snd (atomic (commit_vote cl env rq v party vhash) s)) = trace s @ t
                 \<and> submit_precedes_writes t"
    by (simp add: submit_precedes_writes_def)
qed

lemma post_ordered: "ordered (CastVoteView_post client env st rq)"
  unfolding CastVoteView_post_def Let_def
  by (auto split: json_body.splits sum.splits option.splits prod.splits)

lemma post_submit_precedes_writes:
  "submit_precedes_writes (trace (snd (CastVoteView_post client env st rq (serving d pk))))"
proof -
  from post_ordered [of client env st rq]
  have "\<exists>t. trace (snd (CastVoteView_post client env st rq (serving d pk)))
              = trace (serving d pk) @ t \<and> submit_precedes_writes t"
    unfolding ordered_def by (rule spec)
  then show ?thesis by (auto simp: serving_def)
qed

lemma db_read_run: "\<not> in_atomic_block s \<Longrightarrow> db_read f s = (Inr (f (db s)), s)"
  by (simp add: db_read_def orm_guard_def io_bind_def)

lemma objects_get_run:
  "\<not> in_atomic_block s \<Longrightarrow>
   objects_get model rows s =
     ((case rows (db s) of
         [] \<Rightarrow> Inl (Exn (model @ ''.DoesNotExist'') [])
       | [x] \<Rightarrow> Inr x
       | _ \<Rightarrow> Inl (Exn ''MultipleObjectsReturned'' [])), s)"
  by (simp add: objects_get_def db_read_run io_bind_def io_return_def io_raise_def
        split: list.splits)

lemma lookup_keeps_world:
  "\<not> in_atomic_block s \<Longrightarrow> snd (lookup_voter_and_party voter_email pid s) = s"
  by (simp add: lookup_voter_and_party_def objects_get_run io_defs exn_class_def
        split: list.splits)

lemma lookup_found:
  assumes "\<not> in_atomic_block s"
    and "fst (lookup_voter_and_party voter_email pid s) = Inr (Inr (v, party))"
  shows "filter (\<lambda>w. Some (email w) = voter_email \<and> voter_is_active w) (voters (db s)) = [v]"
  using assms
  by (simp add: lookup_voter_and_party_def objects_get_run io_defs exn_class_def
        split: list.splits if_splits)

lemma lookup_unique:
  assumes "\<not> in_atomic_block s"
    and "filter (\<lambda>w. Some (email w) = voter_email \<and> voter_is_active w) (voters (db s)) = [v]"
    and "filter (\<lambda>p. Some (party_id p) = pid \<and> party_is_active p) (parties (db s)) = [party]"
  shows "lookup_voter_and_party voter_email pid s = (Inr (Inr (v, party)), s)"
  using assms
  by (simp add: lookup_voter_and_party_def objects_get_run io_defs)

lemma post_already_voted:
  assumes "\<not> in_atomic_block s"
    and "\<forall>w \<in> set (voters (db s)).
           Some (email w) = session rq ''verified_voter_email'' \<and> voter_is_active w \<longrightarrow>
           (\<exists>x \<in> set (votes (db s)). voter x = voter_pk w)"
  shows "snd (CastVoteView_post client env st rq s) = s"
proof (cases "body rq")
  case InvalidJson
  then show ?thesis by (simp add: CastVoteView_post_def io_defs)
next
  case JsonNonObject
  then show ?thesis by (simp add: CastVoteView_post_def io_defs)
next
  case (JsonObject pid)
  let ?voter_email = "session rq ''verified_voter_email''"
  obtain res where res: "lookup_voter_and_party ?voter_email pid s = (res, s)"
    using lookup_keeps_world [OF assms(1), of ?voter_email pid]
    by (cases "lookup_voter_and_party ?voter_email pid s") auto
  show ?thesis
  proof (cases res)
    case (Inl e)
    with res JsonObject show ?thesis
      by (simp add: CastVoteView_post_def io_defs Let_def)
  next
    case (Inr looked_up)
    show ?thesis
    proof (cases looked_up)
      case (Inl msg)
      with Inr res JsonObject show ?thesis
        by (simp add: CastVoteView_post_def io_defs Let_def)
    next
      case r: (Inr vp)
      obtain v party where vp: "vp = (v, party)" by (cases vp)
      from lookup_found [OF assms(1), of ?voter_email pid v party] res Inr r vp
      have "filter (\<lambda>w. Some (email w) = ?voter_email \<and> voter_is_active w) (voters (db s)) = [v]"
        by simp
      then have "v \<in> set (filter (\<lambda>w. Some (email w) = ?voter_email \<and> voter_is_active w)
                              (voters (db s)))"
        by simp
      with assms(2) have "\<exists>x \<in> set (votes (db s)). voter x = voter_pk v"
        by simp
      with Inr r vp res JsonObject assms(1) show ?thesis
        by (simp add: CastVoteView_post_def io_defs Let_def db_read_run)
    qed
  qed
qed

lemma post_already_voted_response:
  assumes "\<not> in_atomic_block s"
    and "session rq ''verified_voter_email'' = Some em" "em \<noteq> []"
    and "body rq = JsonObject (Some pid)" "pid \<noteq> []"
    and "filter (\<lambda>w. email w = em \<and> voter_is_active w) (voters (db s)) = [v]"
    and "filter (\<lambda>p. party_id p = pid \<and> party_is_active p) (parties (db s)) = [party]"
    and "\<exists>x \<in> set (votes (db s)). voter x = voter_pk v"
  shows "fst (CastVoteView_post client env st rq s) =
           Inr (JsonFailure ''You have already cast your vote. Multiple voting is not allowed.'',
                session rq)"
proof -
  have "lookup_voter_and_party (Some em) (Some pid) s = (Inr (Inr (v, party)), s)"
    by (rule lookup_unique) (simp_all add: assms)
  with assms show ?thesis
    by (simp add: CastVoteView_post_def db_read_run io_defs Let_def falsy_def)
qed

lemma post_not_verified_response:
  assumes "body rq = JsonObject (Some pid)" "pid \<noteq> []"
    and "falsy (session rq ''verified_voter_email'')"
  shows "fst (CastVoteView_post client env st rq s) =
           Inr (JsonFailure ''Voter not verified. Please complete verification first.'',
                session rq)"
  using assms by (simp add: CastVoteView_post_def io_defs Let_def falsy_def)

lemma post_invalid_party_response:
  assumes "\<not> in_atomic_block s"
    and "session rq ''verified_voter_email'' = Some em" "em \<noteq> []"
    and "body rq = JsonObject (Some pid)" "pid \<noteq> []"
    and "filter (\<lambda>w. email w = em \<and> voter_is_active w) (voters (db s)) = [v]"
    and "filter (\<lambda>p. party_id p = pid \<and> party_is_active p) (parties (db s)) = []"
  shows "fst (CastVoteView_post client env st rq s) =
           Inr (JsonFailure ''Invalid party selection'', session rq)"
proof -
  have "lookup_voter_and_party (Some em) (Some pid) s = (Inr (Inl ''Invalid party selection''), s)"
    using assms
    by (simp add: lookup_voter_and_party_def objects_get_run io_defs exn_class_def)
  with assms show ?thesis
    by (simp add: CastVoteView_post_def io_defs Let_def falsy_def)
qed

text \<open>A well-formed request of a voter without a vote, while a voting session is open,
  reaches the atomic block.\<close>

lemma post_reaches_commit:
  assumes "\<not> in_atomic_block s"
    and "session rq ''verified_voter_email'' = Some em" "em \<noteq> []"
    and "body rq = JsonObject (Some pid)" "pid \<noteq> []"
    and "filter (\<lambda>w. email w = em \<and> voter_is_active w) (voters (db s)) = [v]"
    and "filter (\<lambda>p. party_id p = pid \<and> party_is_active p) (parties (db s)) = [party]"
    and "\<not> (\<exists>x \<in> set (votes (db s)). voter x = voter_pk v)"
    and "fst (has_voter_voted cl env (generate_voter_hash env st v) s) = Inr False"
    and "\<exists>vs \<in> set (voting_sessions (db s)). session_is_active vs
           \<and> start_time vs \<le> clock env (ticks s) \<and> end_time vs \<ge> clock env (Suc (ticks s))"
  shows "CastVoteView_post (Some cl) env st rq s =
           try_except (atomic (commit_vote cl env rq v party (generate_voter_hash env st v)))
             (\<lambda>e. if exn_class e = ''JSONDecodeError''
                     then io_return (JsonFailure ''Invalid JSON data'', session rq)
                   else io_return (JsonFailure
                     ''An error occurred while casting your vote. Please try again.'', session rq))
             ((snd (has_voter_voted cl env (generate_voter_hash env st v) s))
                \<lparr>ticks := Suc (Suc (ticks s))\<rparr>)"
proof -
  let ?vh = "generate_voter_hash env st v"
  have lk: "lookup_voter_and_party (Some em) (Some pid) s = (Inr (Inr (v, party)), s)"
    by (rule lookup_unique) (simp_all add: assms)
  obtain t where t: "snd (has_voter_voted cl env ?vh s) = s\<lparr>trace := trace s @ t\<rparr>"
    using has_voter_voted_world by blast
  with assms(9) have hv: "has_voter_voted cl env ?vh s = (Inr False, s\<lparr>trace := trace s @ t\<rparr>)"
    by (cases "has_voter_voted cl env ?vh s") simp
  show ?thesis
    using assms(1-5,8,10) lk
    by (simp add: CastVoteView_post_def db_read_run io_defs Let_def falsy_def hv t)
qed

lemma post_rejected:
  assumes "\<not> in_atomic_block s"
    and "session rq ''verified_voter_email'' = Some em" "em \<noteq> []"
    and "body rq = JsonObject (Some pid)" "pid \<noteq> []"
    and "filter (\<lambda>w. email w = em \<and> voter_is_active w) (voters (db s)) = [v]"
    and "filter (\<lambda>p. party_id p = pid \<and> party_is_active p) (parties (db s)) = [party]"
    and "\<not> (\<exists>x \<in> set (votes (db s)). voter x = voter_pk v)"
    and "fst (has_voter_voted cl env (generate_voter_hash env st v) s) = Inr False"
    and "\<exists>vs \<in> set (voting_sessions (db s)). session_is_active vs
           \<and> start_time vs \<le> clock env (ticks s) \<and> end_time vs \<ge> clock env (Suc (ticks s))"
    and "fst (cast_vote_on_blockchain cl env (generate_voter_hash env st v) (party_id party)
               ((snd (has_voter_voted cl env (generate_voter_hash env st v) s))
                  \<lparr>ticks := Suc (Suc (ticks s)), in_atomic_block := True,
                    needs_rollback := False\<rparr>)) = Inr r"
    and "\<not> success r"
  shows "fst (CastVoteView_post (Some cl) env st rq s) =
           Inr (JsonFailure (''Blockchain vote failed: '' @ message r), session rq)
         \<and> db (snd (CastVoteView_post (Some cl) env st rq s)) = db s
         \<and> (\<exists>t. trace (snd (CastVoteView_post (Some cl) env st rq s)) = trace s @ t
                \<and> \<not> list_ex is_write t)"
proof -
  let ?vh = "generate_voter_hash env st v"
  let ?s0 = "(snd (has_voter_voted cl env ?vh s))\<lparr>ticks := Suc (Suc (ticks s))\<rparr>"
  obtain t0 where t0: "snd (has_voter_voted cl env ?vh s) = s\<lparr>trace := trace s @ t0\<rparr>"
    and w0: "\<not> list_ex is_write t0"
    using has_voter_voted_world by blast
  obtain s1 where c: "cast_vote_on_blockchain cl env ?vh (party_id party)
                        (?s0\<lparr>in_atomic_block := True, needs_rollback := False\<rparr>) = (Inr r, s1)"
    using assms(11)
    by (cases "cast_vote_on_blockchain cl env ?vh (party_id party)
                 (?s0\<lparr>in_atomic_block := True, needs_rollback := False\<rparr>)") simp
  from commit_vote_rejected [OF c assms(12), of rq v]
  have run: "atomic (commit_vote cl env rq v party ?vh) ?s0 =
               (Inr (JsonFailure (''Blockchain vote failed: '' @ message r), session rq),
                s1\<lparr>in_atomic_block := False, needs_rollback := False\<rparr>)"
    and d: "db s1 = db ?s0"
    and tr: "\<exists>t. trace s1 = trace ?s0 @ LedgerSubmit ?vh (party_id party) # t
                 \<and> (\<forall>table. DbWrite table \<notin> set t)"
    by simp_all
  have post: "CastVoteView_post (Some cl) env st rq s =
                (Inr (JsonFailure (''Blockchain vote failed: '' @ message r), session rq),
                 s1\<lparr>in_atomic_block := False, needs_rollback := False\<rparr>)"
    by (simp add: post_reaches_commit [OF assms(1-10)] try_except_def run)
  from tr obtain t where t: "trace s1 = trace ?s0 @ LedgerSubmit ?vh (party_id party) # t"
    and w: "\<forall>table. DbWrite table \<notin> set t"
    by blast
  have wt: "\<not> list_ex is_write t"
  proof
    assume "list_ex is_write t"
    then obtain ev where "ev \<in> set t" "is_write ev"
      by (auto simp: list_ex_iff)
    with w show False by (cases ev) auto
  qed
  have "trace s1 = trace s @ (t0 @ LedgerSubmit ?vh (party_id party) # t)"
    using t t0 by simp
  moreover have "\<not> list_ex is_write (t0 @ LedgerSubmit ?vh (party_id party) # t)"
    using w0 wt by simp
  ultimately have "\<exists>u. trace s1 = trace s @ u \<and> \<not> list_ex is_write u"
    by blast
  with post d t0 show ?thesis
    by simp
qed

text \<open>
  C3. In every run of the view, no table is written before \<open>cast_vote_on_blockchain\<close> has
  been called. And when a well-formed request of a voter without a vote reaches that call
  and the call returns an unsuccessful result \<open>r\<close>, the view answers with the failure
  ``Blockchain vote failed'' carrying the message of \<open>r\<close>, and the database is the one it
  started from: no \<open>Vote\<close> row, the voter's \<open>has_voted\<close> as before, no \<open>VoteRecord\<close>; the
  run logs no table write at all.
\<close>

theorem rejected_submission_leaves_state:
  "submit_precedes_writes (trace (snd (CastVoteView_post client env st rq (serving d pk))))
   \<and> (\<not> in_atomic_block s
        \<and> session rq ''verified_voter_email'' = Some em \<and> em \<noteq> []
        \<and> body rq = JsonObject (Some pid) \<and> pid \<noteq> []
        \<and> filter (\<lambda>w. email w = em \<and> voter_is_active w) (voters (db s)) = [v]
        \<and> filter (\<lambda>p. party_id p = pid \<and> party_is_active p) (parties (db s)) = [party]
        \<and> \<not> (\<exists>x \<in> set (votes (db s)). voter x = voter_pk v)
        \<and> fst (has_voter_voted cl env (generate_voter_hash env st v) s) = Inr False
        \<and> (\<exists>vs \<in> set (voting_sessions (db s)). session_is_active vs
              \<and> start_time vs \<le> clock env (ticks s) \<and> end_time vs \<ge> clock env (Suc (ticks s)))
        \<and> fst (cast_vote_on_blockchain cl env (generate_voter_hash env st v) (party_id party)
                  ((snd (has_voter_voted cl env (generate_voter_hash env st v) s))
                     \<lparr>ticks := Suc (Suc (ticks s)), in_atomic_block := True,
                       needs_rollback := False\<rparr>)) = Inr r
        \<and> \<not> success r
      \<longrightarrow> fst (CastVoteView_post (Some cl) env st rq s) =
            Inr (JsonFailure (''Blockchain vote failed: '' @ message r), session rq)
          \<and> db (snd (CastVoteView_post (Some cl) env st rq s)) = db s
          \<and> (\<exists>t. trace (snd (CastVoteView_post (Some cl) env st rq s)) = trace s @ t
                 \<and> \<not> list_ex is_write t))"
proof (intro conjI impI)
  show "submit_precedes_writes (trace (snd (CastVoteView_post client env st rq (serving d pk))))"
    by (rule post_submit_precedes_writes)
next
  assume h: "\<not> in_atomic_block s
        \<and> session rq ''verified_voter_email'' = Some em \<and> em \<noteq> []
        \<and> body rq = JsonObject (Some pid) \<and> pid \<noteq> []
        \<and> filter (\<lambda>w. email w = em \<and> voter_is_active w) (voters (db s)) = [v]
        \<and> filter (\<lambda>p. party_id p = pid \<and> party_is_active p) (parties (db s)) = [party]
        \<and> \<not> (\<exists>x \<in> set (votes (db s)). voter x = voter_pk v)
        \<and> fst (has_voter_voted cl env (generate_voter_hash env st v) s) = Inr False
        \<and> (\<exists>vs \<in> set (voting_sessions (db s)). session_is_active vs
              \<and> start_time vs \<le> clock env (ticks s) \<and> end_time vs \<ge> clock env (Suc (ticks s)))
        \<and> fst (cast_vote_on_blockchain cl env (generate_voter_hash env st v) (party_id party)
                  ((snd (has_voter_voted cl env (generate_voter_hash env st v) s))
                     \<lparr>ticks := Suc (Suc (ticks s)), in_atomic_block := True,
                       needs_rollback := False\<rparr>)) = Inr r
        \<and> \<not> success r"
  have "fst (CastVoteView_post (Some cl) env st rq s) =
            Inr (JsonFailure (''Blockchain vote failed: '' @ message r), session rq)
          \<and> db (snd (CastVoteView_post (Some cl) env st rq s)) = db s
          \<and> (\<exists>t. trace (snd (CastVoteView_post (Some cl) env st rq s)) = trace s @ t
                 \<and> \<not> list_ex is_write t)"
    by (rule post_rejected [where em = em and pid = pid and v = v and party = party])
       (simp_all add: h)
  then show "fst (CastVoteView_post (Some cl) env st rq s) =
            Inr (JsonFailure (''Blockchain vote failed: '' @ message r), session rq)"
    and "db (snd (CastVoteView_post (Some cl) env st rq s)) = db s"
    and "\<exists>t. trace (snd (CastVoteView_post (Some cl) env st rq s)) = trace s @ t
                 \<and> \<not> list_ex is_write t"
    by simp_all
qed

theorem rejected_submission_leaves_state_witness:
  "fst (CastVoteView_post (Some client_up)
          (ledger_up\<lparr>eth_wait_for_transaction_receipt := (\<lambda>h. Inr (receipt_ok\<lparr>r_status := 0\<rparr>))\<rparr>)
          settings_up vote_request (serving election_db 100))
     = Inr (JsonFailure ''Blockchain vote failed: Blockchain transaction failed'',
            session vote_request)
   \<and> db (snd (CastVoteView_post (Some client_up)
          (ledger_up\<lparr>eth_wait_for_transaction_receipt := (\<lambda>h. Inr (receipt_ok\<lparr>r_status := 0\<rparr>))\<rparr>)
          settings_up vote_request (serving election_db 100))) = election_db"
  using rejected_submission_leaves_state
          [where cl = client_up and st = settings_up and rq = vote_request
             and s = "serving election_db 100" and em = "''a@x.org''" and pid = "''P2''"
             and v = alice
             and party = "\<lparr> party_pk = 2, party_id = ''P2'', party_name = ''Party Two'',
                             party_is_active = True \<rparr>"
             and r = "rejected ''Blockchain transaction failed''"
             and env = "ledger_up\<lparr>eth_wait_for_transaction_receipt :=
                                    (\<lambda>h. Inr (receipt_ok\<lparr>r_status := 0\<rparr>))\<rparr>"]
  by (simp add: serving_def election_db_def vote_request_def alice_def settings_up_def
        client_up_def ledger_up_def receipt_ok_def rejected_def generate_voter_hash_def
        has_voter_voted_def cast_vote_on_blockchain_def cast_vote_body_def
        send_vote_transaction_def estimate_gas_or_default_def voting_reported_inactive_def test_connection_def
        account_address_def io_defs Let_def)

text \<open>The first submission of Alice on a ledger that confirms it: the vote is committed,
  the answer is the success, and the session it leaves no longer holds the verified
  e-mail address.\<close>

lemmas run_defs =
  CastVoteView_post_def lookup_voter_and_party_def objects_get_def commit_vote_def atomic_def
  cast_vote_on_blockchain_def cast_vote_body_def send_vote_transaction_def
  estimate_gas_or_default_def voting_reported_inactive_def test_connection_def
  has_voter_voted_def account_address_def record_blockchain_transaction_def
  BlockchainNetwork_get_or_create_default_def create_vote_record_def
  verify_vote_on_blockchain_def VoteRecord_objects_create_def generate_voter_hash_def
  get_client_ip_def falsy_def exn_class_def vote_metadata_def
  db_read_def db_write_def orm_guard_def fresh_pk_def time_time_def log_event_def
  Vote_insert_def BlockchainTransaction_insert_def Voter_update_def rejected_def
  io_return_def io_bind_def io_raise_def try_except_def rpc_def lib_def

lemma first_submit_run:
  "(case first_submit of (r, w) \<Rightarrow>
     r = Inr (JsonSuccess 102 (Some ''0x77'') 1700000002 ''Party Two'', session second_request)
     \<and> voters (db w) = [alice\<lparr>has_voted := True\<rparr>]
     \<and> parties (db w) = parties election_db
     \<and> votes (db w) =
         [\<lparr> vote_pk = 102, voter = 1, political_party = 2, blockchain_hash = Some ''0x77'',
            blockchain_block_number = Some 7, voted_at = 1700000002, is_valid = True,
            ip_address = Some ''10.0.0.1'' \<rparr>]
     \<and> \<not> in_atomic_block w)"
  by (simp add: first_submit_def second_request_def run_defs ledger_up_def client_up_def
        settings_up_def vote_request_def serving_def election_db_def alice_def receipt_ok_def
        Let_def)

text \<open>
  C8, as the code has it. When every active voter with the session's e-mail address
  already has a \<open>Vote\<close> row, the view leaves the world as it found it, whatever the request:
  nothing is added to the call log (no \<open>hasVoted\<close>, no ledger submit, no broadcast), the
  clock is not read, no table is written. The answer is the ``already cast'' failure when
  the session holds the voter's e-mail address and the request names an active party. A
  request whose session holds no verified e-mail address is answered ``not verified'', and
  one that names no active party is answered ``invalid party'': both checks come before
  the look-up of the vote.
\<close>

theorem already_voted_short_circuits_ledger:
  assumes "\<not> in_atomic_block s"
    and "\<forall>w \<in> set (voters (db s)).
           Some (email w) = session rq ''verified_voter_email'' \<and> voter_is_active w \<longrightarrow>
           (\<exists>x \<in> set (votes (db s)). voter x = voter_pk w)"
  shows "snd (CastVoteView_post client env st rq s) = s
         \<and> (session rq ''verified_voter_email'' = Some em \<and> em \<noteq> []
              \<and> body rq = JsonObject (Some pid) \<and> pid \<noteq> []
              \<and> filter (\<lambda>w. email w = em \<and> voter_is_active w) (voters (db s)) = [v]
              \<and> filter (\<lambda>p. party_id p = pid \<and> party_is_active p) (parties (db s)) = [party]
            \<longrightarrow> fst (CastVoteView_post client env st rq s) =
                  Inr (JsonFailure
                         ''You have already cast your vote. Multiple voting is not allowed.'',
                       session rq))
         \<and> (falsy (session rq ''verified_voter_email'')
              \<and> body rq = JsonObject (Some pid) \<and> pid \<noteq> []
            \<longrightarrow> fst (CastVoteView_post client env st rq s) =
                  Inr (JsonFailure ''Voter not verified. Please complete verification first.'',
                       session rq))
         \<and> (session rq ''verified_voter_email'' = Some em \<and> em \<noteq> []
              \<and> body rq = JsonObject (Some pid) \<and> pid \<noteq> []
              \<and> filter (\<lambda>w. email w = em \<and> voter_is_active w) (voters (db s)) = [v]
              \<and> filter (\<lambda>p. party_id p = pid \<and> party_is_active p) (parties (db s)) = []
            \<longrightarrow> fst (CastVoteView_post client env st rq s) =
                  Inr (JsonFailure ''Invalid party selection'', session rq))"
proof (intro conjI impI)
  show "snd (CastVoteView_post client env st rq s) = s"
    using assms by (rule post_already_voted)
next
  assume h: "session rq ''verified_voter_email'' = Some em \<and> em \<noteq> []
              \<and> body rq = JsonObject (Some pid) \<and> pid \<noteq> []
              \<and> filter (\<lambda>w. email w = em \<and> voter_is_active w) (voters (db s)) = [v]
              \<and> filter (\<lambda>p. party_id p = pid \<and> party_is_active p) (parties (db s)) = [party]"
  then have "v \<in> set (filter (\<lambda>w. email w = em \<and> voter_is_active w) (voters (db s)))"
    by simp
  then have "v \<in> set (voters (db s))" "email v = em" "voter_is_active v"
    by simp_all
  moreover from h have "session rq ''verified_voter_email'' = Some em"
    by simp
  ultimately have voted: "\<exists>x \<in> set (votes (db s)). voter x = voter_pk v"
    using assms(2) by auto
  show "fst (CastVoteView_post client env st rq s) =
          Inr (JsonFailure ''You have already cast your vote. Multiple voting is not allowed.'',
               session rq)"
    by (rule post_already_voted_response [where em = em and pid = pid and v = v and party = party])
       (simp_all add: assms(1) h voted)
next
  assume "falsy (session rq ''verified_voter_email'')
            \<and> body rq = JsonObject (Some pid) \<and> pid \<noteq> []"
  then show "fst (CastVoteView_post client env st rq s) =
          Inr (JsonFailure ''Voter not verified. Please complete verification first.'',
               session rq)"
    by (intro post_not_verified_response [where pid = pid]) simp_all
next
  assume h: "session rq ''verified_voter_email'' = Some em \<and> em \<noteq> []
              \<and> body rq = JsonObject (Some pid) \<and> pid \<noteq> []
              \<and> filter (\<lambda>w. email w = em \<and> voter_is_active w) (voters (db s)) = [v]
              \<and> filter (\<lambda>p. party_id p = pid \<and> party_is_active p) (parties (db s)) = []"
  show "fst (CastVoteView_post client env st rq s) =
          Inr (JsonFailure ''Invalid party selection'', session rq)"
    by (rule post_invalid_party_response [where em = em and pid = pid and v = v])
       (simp_all add: assms(1) h)
qed

theorem already_voted_short_circuits_ledger_witness:
  "CastVoteView_post (Some client_up) ledger_up settings_up vote_request
      (serving (election_db\<lparr>votes := [alice_vote]\<rparr>) 100)
     = (Inr (JsonFailure ''You have already cast your vote. Multiple voting is not allowed.'',
             session vote_request),
        serving (election_db\<lparr>votes := [alice_vote]\<rparr>) 100)
   \<and> CastVoteView_post (Some client_up) ledger_up settings_up second_request
        (serving (election_db\<lparr>votes := [alice_vote]\<rparr>) 100)
     = (Inr (JsonFailure ''Voter not verified. Please complete verification first.'',
             session second_request),
        serving (election_db\<lparr>votes := [alice_vote]\<rparr>) 100)
   \<and> CastVoteView_post (Some client_up) ledger_up settings_up
        (vote_request\<lparr>body := JsonObject (Some ''P9'')\<rparr>)
        (serving (election_db\<lparr>votes := [alice_vote]\<rparr>) 100)
     = (Inr (JsonFailure ''Invalid party selection'', session vote_request),
        serving (election_db\<lparr>votes := [alice_vote]\<rparr>) 100)"
  using already_voted_short_circuits_ledger
          [where client = "Some client_up" and env = ledger_up and st = settings_up
             and rq = vote_request and s = "serving (election_db\<lparr>votes := [alice_vote]\<rparr>) 100"
             and em = "''a@x.org''" and pid = "''P2''" and v = alice
             and party = "\<lparr> party_pk = 2, party_id = ''P2'', party_name = ''Party Two'',
                             party_is_active = True \<rparr>"]
        already_voted_short_circuits_ledger
          [where client = "Some client_up" and env = ledger_up and st = settings_up
             and rq = second_request
             and s = "serving (election_db\<lparr>votes := [alice_vote]\<rparr>) 100"
             and pid = "''P2''"]
        already_voted_short_circuits_ledger
          [where client = "Some client_up" and env = ledger_up and st = settings_up
             and rq = "vote_request\<lparr>body := JsonObject (Some ''P9'')\<rparr>"
             and s = "serving (election_db\<lparr>votes := [alice_vote]\<rparr>) 100"
             and em = "''a@x.org''" and pid = "''P9''" and v = alice]
  by (simp add: prod_eq_iff serving_def election_db_def vote_request_def second_request_def
        alice_def alice_vote_def falsy_def)

text \<open>C8 as the specification states it fails. Alice's first submission is committed; the
  view removes the verified e-mail address from the session as it answers. The same
  request sent again at once, on the session the first one left, is answered ``not
  verified'', not ``already cast''. And once her vote is committed, a request of hers that
  names an unknown party is answered ``invalid party''.\<close>

theorem resubmission_not_already_voted_counterexample:
  "fst first_submit =
     Inr (JsonSuccess 102 (Some ''0x77'') 1700000002 ''Party Two'', session second_request)
   \<and> map voter (votes (db (snd first_submit))) = [voter_pk alice]
   \<and> fst (CastVoteView_post (Some client_up) ledger_up settings_up second_request
            (snd first_submit))
     = Inr (JsonFailure ''Voter not verified. Please complete verification first.'',
            session second_request)
   \<and> fst (CastVoteView_post (Some client_up) ledger_up settings_up
            (vote_request\<lparr>body := JsonObject (Some ''P9'')\<rparr>) (snd first_submit))
     = Inr (JsonFailure ''Invalid party selection'', session vote_request)"
proof -
  obtain r w where run: "first_submit = (r, w)"
    by (cases first_submit)
  have
    answer: "r = Inr (JsonSuccess 102 (Some ''0x77'') 1700000002 ''Party Two'',
                      session second_request)"
    and rows: "voters (db w) = [alice\<lparr>has_voted := True\<rparr>]" "parties (db w) = parties election_db"
      "votes (db w) =
         [\<lparr> vote_pk = 102, voter = 1, political_party = 2, blockchain_hash = Some ''0x77'',
            blockchain_block_number = Some 7, voted_at = 1700000002, is_valid = True,
            ip_address = Some ''10.0.0.1'' \<rparr>]"
    and outside: "\<not> in_atomic_block w"
    using first_submit_run by (simp_all add: run)
  have again: "fst (CastVoteView_post (Some client_up) ledger_up settings_up second_request w)
     = Inr (JsonFailure ''Voter not verified. Please complete verification first.'',
            session second_request)"
    by (rule post_not_verified_response [where pid = "''P2''"])
       (simp_all add: second_request_def vote_request_def falsy_def)
  have unknown: "fst (CastVoteView_post (Some client_up) ledger_up settings_up
            (vote_request\<lparr>body := JsonObject (Some ''P9'')\<rparr>) w)
     = Inr (JsonFailure ''Invalid party selection'', session vote_request)"
    using post_invalid_party_response
            [where s = w and rq = "vote_request\<lparr>body := JsonObject (Some ''P9'')\<rparr>"
               and em = "''a@x.org''" and pid = "''P9''" and v = "alice\<lparr>has_voted := True\<rparr>"
               and client = "Some client_up" and env = ledger_up and st = settings_up]
    by (simp add: outside rows vote_request_def election_db_def alice_def)
  from answer rows again unknown show ?thesis
    by (simp add: run alice_def)
qed

section \<open>Verification: the audit after the vote path\<close>

subsection \<open>The view writes no vote record\<close>

lemma keeps_return [intro!]: "keeps_vote_records (io_return x)"
  by (simp add: keeps_vote_records_def io_return_def)

lemma keeps_raise [intro!]: "keeps_vote_records (io_raise e)"
  by (simp add: keeps_vote_records_def io_raise_def)

lemma keeps_rpc [intro!]: "keeps_vote_records (rpc ev outcome)"
  by (simp add: keeps_vote_records_def rpc_def)

lemma keeps_lib [intro!]: "keeps_vote_records (lib outcome)"
  by (simp add: keeps_vote_records_def lib_def)

lemma keeps_log [intro!]: "keeps_vote_records (log_event ev)"
  by (simp add: keeps_vote_records_def log_event_def)

lemma keeps_time [intro!]: "keeps_vote_records (time_time env)"
  by (simp add: keeps_vote_records_def time_time_def)

lemma keeps_fresh [intro!]: "keeps_vote_records fresh_pk"
  by (simp add: keeps_vote_records_def fresh_pk_def)

lemma keeps_db_read [intro!]: "keeps_vote_records (db_read f)"
  by (simp add: keeps_vote_records_def db_read_def orm_guard_def io_bind_def)

lemma keeps_db_write [intro!]:
  assumes "\<And>d d'. f d = Inr d' \<Longrightarrow> vote_records d' = vote_records d"
  shows "keeps_vote_records (db_write table f)"
  using assms
  by (auto simp: keeps_vote_records_def db_write_def orm_guard_def io_bind_def split: sum.splits)

lemma keeps_bind [intro!]:
  assumes "keeps_vote_records m" "\<And>v. keeps_vote_records (f v)"
  shows "keeps_vote_records (io_bind m f)"
  unfolding keeps_vote_records_def
proof
  fix s
  obtain r s' where ms: "m s = (r, s')" by (cases "m s")
  from assms(1) have "vote_records (db (snd (m s))) = vote_records (db s)"
    unfolding keeps_vote_records_def by (rule spec)
  with ms have kept: "vote_records (db s') = vote_records (db s)" by simp
  show "vote_records (db (snd (io_bind m f s))) = vote_records (db s)"
  proof (cases r)
    case (Inl e)
    with ms kept show ?thesis by (simp add: io_bind_def)
  next
    case (Inr v)
    from assms(2) [of v] have "vote_records (db (snd (f v s'))) = vote_records (db s')"
      unfolding keeps_vote_records_def by (rule spec)
    with Inr ms kept show ?thesis by (simp add: io_bind_def)
  qed
qed

lemma keeps_try [intro!]:
  assumes "keeps_vote_records m" "\<And>e. keeps_vote_records (h e)"
  shows "keeps_vote_records (try_except m h)"
  unfolding keeps_vote_records_def
proof
  fix s
  obtain r s' where ms: "m s = (r, s')" by (cases "m s")
  from assms(1) have "vote_records (db (snd (m s))) = vote_records (db s)"
    unfolding keeps_vote_records_def by (rule spec)
  with ms have kept: "vote_records (db s') = vote_records (db s)" by simp
  show "vote_records (db (snd (try_except m h s))) = vote_records (db s)"
  proof (cases r)
    case (Inr v)
    with ms kept show ?thesis by (simp add: try_except_def)
  next
    case (Inl e)
    from assms(2) [of e] have "vote_records (db (snd (h e s'))) = vote_records (db s')"
      unfolding keeps_vote_records_def by (rule spec)
    with Inl ms kept show ?thesis by (simp add: try_except_def)
  qed
qed

lemma keeps_atomic [intro!]:
  assumes "keeps_vote_records m"
  shows "keeps_vote_records (atomic m)"
  unfolding keeps_vote_records_def
proof
  fix s
  from assms have
    "vote_records (db (snd (m (s\<lparr>in_atomic_block := True, needs_rollback := False\<rparr>))))
       = vote_records (db (s\<lparr>in_atomic_block := True, needs_rollback := False\<rparr>))"
    unfolding keeps_vote_records_def by (rule spec)
  then show "vote_records (db (snd (atomic m s))) = vote_records (db s)"
    by (auto simp: atomic_def split: prod.splits sum.splits)
qed

lemma keeps_if [intro!]:
  "(b \<Longrightarrow> keeps_vote_records m) \<Longrightarrow> (\<not> b \<Longrightarrow> keeps_vote_records n)
     \<Longrightarrow> keeps_vote_records (if b then m else n)"
  by simp

lemma keeps_option [intro!]:
  "(x = None \<Longrightarrow> keeps_vote_records m) \<Longrightarrow> (\<And>y. x = Some y \<Longrightarrow> keeps_vote_records (f y))
     \<Longrightarrow> keeps_vote_records (case x of None \<Rightarrow> m | Some y \<Rightarrow> f y)"
  by (cases x) simp_all

lemma keeps_simulated [intro!]: "keeps_vote_records (simulated env vhash party msg)"
  unfolding simulated_def by (intro keeps_bind keeps_time keeps_return)

lemma keeps_account [intro!]: "keeps_vote_records (account_address cl)"
  unfolding account_address_def by (cases "account cl") auto

lemma keeps_has_voter_voted [intro!]: "keeps_vote_records (has_voter_voted cl env vhash)"
  unfolding has_voter_voted_def by auto

lemma keeps_verify [intro!]:
  "keeps_vote_records (verify_vote_on_blockchain cl env vhash party tx)"
  unfolding verify_vote_on_blockchain_def by auto

lemma keeps_network [intro!]:
  "keeps_vote_records (BlockchainNetwork_get_or_create_default cl cid)"
  unfolding BlockchainNetwork_get_or_create_default_def
  by (intro keeps_bind keeps_db_read) (auto split: list.splits)

lemma keeps_record [intro!]:
  "keeps_vote_records (record_blockchain_transaction cl env tx tp rc md)"
  unfolding record_blockchain_transaction_def Let_def
  by (auto simp: BlockchainTransaction_insert_def split: if_splits)

lemma keeps_cast [intro!]: "keeps_vote_records (cast_vote_on_blockchain cl env vhash party)"
  unfolding cast_vote_on_blockchain_def cast_vote_body_def send_vote_transaction_def
    estimate_gas_or_default_def voting_reported_inactive_def test_connection_def
  by auto

text \<open>\<open>create_vote_record\<close> passes the keyword \<open>is_verified\<close>, so the row is never built.\<close>

lemma keeps_create_record [intro!]:
  "keeps_vote_records (create_vote_record cl env vhash party tx)"
  unfolding create_vote_record_def VoteRecord_objects_create_def by auto

lemma keeps_commit [intro!]: "keeps_vote_records (commit_vote cl env rq v party vhash)"
  unfolding commit_vote_def
  by (auto simp: Vote_insert_def Voter_update_def split: if_splits)

lemma keeps_objects_get [intro!]: "keeps_vote_records (objects_get model rows)"
  unfolding objects_get_def by (auto split: list.splits)

lemma keeps_lookup [intro!]: "keeps_vote_records (lookup_voter_and_party voter_email pid)"
  unfolding lookup_voter_and_party_def by auto

lemma post_keeps_vote_records: "keeps_vote_records (CastVoteView_post client env st rq)"
  unfolding CastVoteView_post_def Let_def
  by (auto split: json_body.splits sum.splits option.splits prod.splits)

text \<open>\<open>create_vote_record\<close> never returns a record: whatever the ledger and the database
  answer, the keyword \<open>is_verified\<close> makes the constructor raise, and the handler returns
  \<open>None\<close>.\<close>

lemma verify_vote_returns:
  "\<exists>b t. verify_vote_on_blockchain cl env vhash party tx s = (Inr b, s\<lparr>trace := trace s @ t\<rparr>)"
proof -
  have "\<exists>b. verify_vote_on_blockchain cl env vhash party tx s =
          (Inr b, s\<lparr>trace := trace s @ [GetTransactionReceipt tx]\<rparr>)"
    by (auto simp: verify_vote_on_blockchain_def io_defs split: sum.splits)
  then show ?thesis by blast
qed

lemma create_vote_record_none:
  "fst (create_vote_record cl env vhash party tx s) = Inr None"
proof -
  obtain r s' where g: "orm_guard s = (r, s')" by (cases "orm_guard s")
  obtain b t where v: "verify_vote_on_blockchain cl env vhash (PartyStr party) tx
                         (s'\<lparr>ticks := Suc (ticks s')\<rparr>)
                       = (Inr b, s'\<lparr>ticks := Suc (ticks s')\<rparr>
                                   \<lparr>trace := trace (s'\<lparr>ticks := Suc (ticks s')\<rparr>) @ t\<rparr>)"
    using verify_vote_returns by blast
  show ?thesis
    by (cases r)
       (simp_all add: create_vote_record_def VoteRecord_objects_create_def db_read_def g v
          io_defs)
qed

text \<open>
  C5. The audit counts a stored vote record as verified when the ledger's event carries its
  voter hash and its party. The party of a stored record is a UUID and the party of an
  event is a string, so the comparison fails for every record: whatever the ledger holds,
  the audit reports no verified record, every record with a transaction as failed, and
  0 percent with the status ``warning'' as soon as the table has a row. The vote path
  itself never adds a row to the table, since \<open>create_vote_record\<close> always fails, so after
  any number of submissions through the view the audit still reads the table it read
  before; on an election with 100 committed votes and an empty table it reports 0 records
  and 100 percent. On a table of 100 records of which the ledger confirms 95 with the
  matching event, where the specification expects 95 verified, 5 mismatches and 95
  percent, it reports 0 verified, 100 failed and 0 percent, which the management command
  reads as its lowest band.
\<close>

theorem audit_verifies_no_vote_record:
  "fst (audit_vote_integrity cl env (serving d n)) =
     Inr \<lparr> total_records = length (vote_records d), verified_count = 0,
           failed_count = length (filter (\<lambda>r. blockchain_transaction r \<noteq> None) (vote_records d)),
           integrity_percentage = (if vote_records d = [] then 100 else 0),
           audit_status = (if vote_records d = [] then ''success'' else ''warning''),
           audit_timestamp = Some (py_int (clock env 0)), audit_message = None \<rparr>
   \<and> fst (create_vote_record cl env vhash party tx s) = Inr None
   \<and> vote_records (db (snd (CastVoteView_post client env st rq s))) = vote_records (db s)
   \<and> fst (audit_vote_integrity client_up audit_ledger (serving committed_db 0)) =
       Inr \<lparr> total_records = 0, verified_count = 0, failed_count = 0,
             integrity_percentage = 100, audit_status = ''success'',
             audit_timestamp = Some 1700000000, audit_message = None \<rparr>
   \<and> fst (audit_vote_integrity client_up audit_ledger (serving (audit_db ''confirmed'') 0)) =
       Inr \<lparr> total_records = 100, verified_count = 0, failed_count = 100,
             integrity_percentage = 0, audit_status = ''warning'',
             audit_timestamp = Some 1700000000, audit_message = None \<rparr>
   \<and> audit_integrity_verdict
         \<lparr> total_records = 100, verified_count = 0, failed_count = 100,
           integrity_percentage = 0, audit_status = ''warning'',
           audit_timestamp = Some 1700000000, audit_message = None \<rparr> = Poor"
proof (intro conjI)
  have run: "fst (audit_vote_integrity cl' env' (serving d' n')) =
     Inr \<lparr> total_records = length (vote_records d'), verified_count = 0,
           failed_count = length (filter (\<lambda>r. blockchain_transaction r \<noteq> None) (vote_records d')),
           integrity_percentage = (if vote_records d' = [] then 100 else 0),
           audit_status = (if vote_records d' = [] then ''success'' else ''warning''),
           audit_timestamp = Some (py_int (clock env' 0)), audit_message = None \<rparr>"
    for cl' env' d' n'
    using audit_run [of "serving d' n'" cl' env'] by (simp add: serving_def)
  show "fst (audit_vote_integrity cl env (serving d n)) =
     Inr \<lparr> total_records = length (vote_records d), verified_count = 0,
           failed_count = length (filter (\<lambda>r. blockchain_transaction r \<noteq> None) (vote_records d)),
           integrity_percentage = (if vote_records d = [] then 100 else 0),
           audit_status = (if vote_records d = [] then ''success'' else ''warning''),
           audit_timestamp = Some (py_int (clock env 0)), audit_message = None \<rparr>"
    by (rule run)
  show "fst (create_vote_record cl env vhash party tx s) = Inr None"
    by (rule create_vote_record_none)
  show "vote_records (db (snd (CastVoteView_post client env st rq s))) = vote_records (db s)"
    using post_keeps_vote_records [of client env st rq]
    unfolding keeps_vote_records_def by (rule spec)
  show "fst (audit_vote_integrity client_up audit_ledger (serving committed_db 0)) =
       Inr \<lparr> total_records = 0, verified_count = 0, failed_count = 0,
             integrity_percentage = 100, audit_status = ''success'',
             audit_timestamp = Some 1700000000, audit_message = None \<rparr>"
    by (simp add: run committed_db_def election_db_def audit_ledger_def ledger_up_def
          py_int_def)
  have "filter (\<lambda>r. blockchain_transaction r \<noteq> None) (map (audit_record st') [0..<100])
          = map (audit_record st') [0..<100]" for st'
    by (simp add: filter_map o_def audit_record_def)
  then show "fst (audit_vote_integrity client_up audit_ledger (serving (audit_db ''confirmed'') 0)) =
       Inr \<lparr> total_records = 100, verified_count = 0, failed_count = 100,
             integrity_percentage = 0, audit_status = ''warning'',
             audit_timestamp = Some 1700000000, audit_message = None \<rparr>"
    by (simp add: run audit_db_def audit_ledger_def ledger_up_def py_int_def)
  show "audit_integrity_verdict
         \<lparr> total_records = 100, verified_count = 0, failed_count = 100,
           integrity_percentage = 0, audit_status = ''warning'',
           audit_timestamp = Some 1700000000, audit_message = None \<rparr> = Poor"
    by (simp add: audit_integrity_verdict_def)
qed

end
